theory Spec2Isabelle
  imports Main "HOL-Library.Word"
begin

unbundle bit_operations_syntax

section \<open>Data model of cy_mqtt_api.c\<close>

text \<open>
  The embedding follows \<^verbatim>\<open>source/cy_mqtt_api.c\<close>. Machine integers are words of their
  C width (\<^verbatim>\<open>size_t\<close> is 32 bits wide on the Cortex-M targets of the library). Pointers
  to client objects are natural numbers with \<open>0\<close> for \<^verbatim>\<open>NULL\<close>; the memory that holds
  the objects is a total function from addresses to object contents, so reading an
  address after \<^verbatim>\<open>free\<close> returns what was last written there.
\<close>

type_synonym uint8_t = "8 word"
type_synonym uint16_t = "16 word"
type_synonym uint32_t = "32 word"
type_synonym size_t = "32 word"

text \<open>
  The result codes of \<^verbatim>\<open>cy_mqtt_api.h\<close> (pairwise distinct there), and one constructor
  for the codes that the RTOS and socket layers hand through.
\<close>

datatype cy_rslt_t =
    CY_RSLT_SUCCESS
  | CY_RSLT_MODULE_MQTT_BADARG
  | CY_RSLT_MODULE_MQTT_NOMEM
  | CY_RSLT_MODULE_MQTT_INIT_FAIL
  | CY_RSLT_MODULE_MQTT_CREATE_FAIL
  | CY_RSLT_MODULE_MQTT_OBJ_NOT_INITIALIZED
  | CY_RSLT_MODULE_MQTT_NOT_CONNECTED
  | CY_RSLT_MODULE_MQTT_CONNECT_FAIL
  | CY_RSLT_MODULE_MQTT_PUBLISH_FAIL
  | CY_RSLT_MODULE_MQTT_SUBSCRIBE_FAIL
  | CY_RSLT_MODULE_MQTT_UNSUBSCRIBE_FAIL
  | CY_RSLT_MODULE_MQTT_DEINIT_FAIL
  | CY_RSLT_MODULE_MQTT_ERROR
  | CY_RSLT_PLATFORM_ERROR nat

datatype MQTTStatus_t =
    MQTTSuccess
  | MQTTBadParameter
  | MQTTNoMemory
  | MQTTSendFailed
  | MQTTRecvFailed
  | MQTTBadResponse
  | MQTTServerRefused
  | MQTTNoDataAvailable
  | MQTTIllegalState
  | MQTTStateCollision
  | MQTTKeepAliveTimeout

datatype MQTTQoS_t = MQTTQoS0 | MQTTQoS1 | MQTTQoS2

datatype cy_mqtt_qos_t = CY_MQTT_QOS0 | CY_MQTT_QOS1 | CY_MQTT_QOS2 | CY_MQTT_QOS_INVALID

datatype RetryUtilsStatus_t = RetryUtilsSuccess | RetryUtilsRetriesExhausted

datatype cy_mqtt_disconn_type_t =
    CY_MQTT_DISCONN_TYPE_BROKER_DOWN
  | CY_MQTT_DISCONN_TYPE_NETWORK_DOWN

text \<open>A mutex handle: not created (all-zero memory), created and free, or created and held.\<close>

datatype cy_mutex_t = MUTEX_NULL | MUTEX_UNLOCKED | MUTEX_LOCKED

type_synonym cy_mqtt_t = nat

abbreviation NULL :: cy_mqtt_t where
  "NULL \<equiv> 0"

text \<open>
  A pointer to a codec context is \<^verbatim>\<open>NULL\<close> or the address of the \<^verbatim>\<open>mqtt_context\<close>
  member of a client object: the file takes no other address of that type.
\<close>

datatype MQTTContext_ptr = NULL_CONTEXT | MQTT_CONTEXT_OF cy_mqtt_t

record MQTTPublishInfo_t =
  qos :: MQTTQoS_t
  retain :: bool
  dup :: bool
  pTopicName :: string
  topicNameLength :: nat
  pPayload :: string
  payloadLength :: nat

record MQTTSubscribeInfo_t =
  filter_qos :: MQTTQoS_t
  pTopicFilter :: string
  topicFilterLength :: nat

record MQTTConnectInfo_t =
  cleanSession :: bool
  keepAliveSeconds :: uint16_t
  pClientIdentifier :: string
  pUserName :: string
  pPassword :: string

record MQTTPacketInfo_t =
  packet_type :: uint8_t
  pRemainingData :: "uint8_t list"

record MQTTDeserializedInfo_t =
  packetIdentifier :: uint16_t
  pPublishInfo :: "MQTTPublishInfo_t option"
  deserializationResult :: MQTTStatus_t

record cy_mqtt_publish_info_t =
  msg_qos :: cy_mqtt_qos_t
  topic :: string
  topic_len :: nat
  payload :: string
  payload_len :: nat
  msg_retain :: bool
  msg_dup :: bool

record cy_mqtt_subscribe_info_t =
  sub_topic :: string
  sub_topic_len :: nat
  sub_qos :: cy_mqtt_qos_t
  allocated_qos :: cy_mqtt_qos_t

record cy_mqtt_connect_info_t =
  client_id :: string
  username :: string
  password :: string
  clean_session :: bool
  keep_alive_sec :: uint16_t
  will_info :: "cy_mqtt_publish_info_t option"

datatype cy_mqtt_event_t =
    CY_MQTT_EVENT_TYPE_PUBLISH_RECEIVE uint16_t cy_mqtt_publish_info_t
  | CY_MQTT_EVENT_TYPE_DISCONNECT cy_mqtt_disconn_type_t

record cy_mqtt_pubpack_t =
  packetid :: uint16_t
  pubinfo :: MQTTPublishInfo_t

record cy_mqtt_pub_ack_status_t =
  ack_packetid :: uint16_t
  puback_status :: bool

text \<open>
  The client object. \<open>recv_thread\<close> is \<open>True\<close> where the C field holds a thread handle
  and \<open>False\<close> where it is \<^verbatim>\<open>NULL\<close>; \<open>mqtt_event_cb\<close> and \<open>user_data\<close> are addresses.
  The network context, the codec context, the broker address and the credentials belong
  to the socket layer and the codec and are not part of the model.
\<close>

record cy_mqtt_object_t =
  mqtt_obj_initialized :: bool
  mqtt_secure_mode :: bool
  mqtt_session_established :: bool
  broker_session_present :: bool
  mqtt_conn_status :: bool
  mqtt_obj_index :: uint8_t
  recv_thread :: bool
  mqtt_event_cb :: nat
  sub_ack_status :: "uint8_t list"
  num_of_subs_in_req :: uint8_t
  unsub_ack_received :: bool
  pub_ack_status :: cy_mqtt_pub_ack_status_t
  sent_packet_id :: uint16_t
  outgoing_pub_packets :: "cy_mqtt_pubpack_t list"
  process_mutex :: cy_mutex_t
  user_data :: nat

record mqtt_data_base_t =
  mqtt_handle :: cy_mqtt_t
  mqtt_context :: MQTTContext_ptr

text \<open>
  The compile-time constants of \<^verbatim>\<open>cy_mqtt_api.h\<close> and of the retry helper, which the
  file only uses. The loop counters compared with them are \<^verbatim>\<open>uint8_t\<close>; the model counts
  in \<open>nat\<close>, which agrees with the C code for constants below 256.
\<close>

record mqtt_config =
  CY_MQTT_MAX_HANDLE :: nat
  CY_MQTT_MAX_OUTGOING_PUBLISHES :: nat
  CY_MQTT_MAX_OUTGOING_SUBSCRIBES :: nat
  CY_MQTT_MAX_RETRY_VALUE :: nat
  CY_MQTT_ACK_RECEIVE_TIMEOUT_MS :: uint32_t
  CY_MQTT_MESSAGE_RECEIVE_TIMEOUT_MS :: size_t
  MAX_RETRY_ATTEMPTS :: nat

subsection \<open>Calls into the RTOS, the socket layer, the codec and the application\<close>

datatype mutex_ref = MQTT_DB_MUTEX | PROCESS_MUTEX cy_mqtt_t

datatype thread_ref = MQTT_DISCONNECT_EVENT_THREAD | RECV_THREAD cy_mqtt_t

datatype mem_ref = MQTT_OBJECT cy_mqtt_t | SUB_LIST

text \<open>
  Every call that leaves the file is appended to a trace, so that "no codec call was
  made" and "nothing was torn down" are statements about the trace.
\<close>

datatype ext_call =
    Call_cy_rtos_get_mutex mutex_ref
  | Call_cy_rtos_set_mutex mutex_ref
  | Call_cy_rtos_deinit_mutex mutex_ref
  | Call_cy_rtos_create_thread thread_ref
  | Call_cy_rtos_terminate_thread thread_ref
  | Call_cy_rtos_join_thread thread_ref
  | Call_cy_rtos_get_queue
  | Call_cy_rtos_deinit_queue
  | Call_cy_rtos_delay_milliseconds nat
  | Call_cy_awsport_network_create cy_mqtt_t
  | Call_cy_awsport_network_connect cy_mqtt_t
  | Call_cy_awsport_network_disconnect cy_mqtt_t
  | Call_cy_awsport_network_delete cy_mqtt_t
  | Call_cy_awsport_network_deinit
  | Call_RetryUtils_BackoffAndSleep
  | Call_RetryUtils_ParamsReset
  | Call_MQTT_Connect cy_mqtt_t MQTTConnectInfo_t "MQTTPublishInfo_t option"
  | Call_MQTT_Publish cy_mqtt_t MQTTPublishInfo_t uint16_t
  | Call_MQTT_Subscribe cy_mqtt_t "MQTTSubscribeInfo_t list" uint16_t
  | Call_MQTT_Unsubscribe cy_mqtt_t "MQTTSubscribeInfo_t list" uint16_t
  | Call_MQTT_Disconnect cy_mqtt_t
  | Call_MQTT_ProcessLoop cy_mqtt_t
  | Call_MQTT_GetPacketId cy_mqtt_t
  | Call_malloc mem_ref
  | Call_free mem_ref
  | Call_mqtt_event_cb nat cy_mqtt_t cy_mqtt_event_t nat

text \<open>
  What the outside answers. Each answer is indexed by the length of the trace at the
  moment of the call, so that any sequence of answers can be written down.
  \<open>publish_to_resend\<close> is the sequence of packet ids that the codec's resend cursor yields
  (a position in the codec's finite table of outgoing publish records);
  \<open>suback_status_codes\<close> is \<^verbatim>\<open>MQTT_GetSubAckStatusCodes\<close>: the status, the payload and the
  count it reports for a packet.
\<close>

record mqtt_env =
  rtos_result :: "nat \<Rightarrow> cy_rslt_t"
  awsport_result :: "nat \<Rightarrow> cy_rslt_t"
  mqtt_status :: "nat \<Rightarrow> MQTTStatus_t"
  session_present :: "nat \<Rightarrow> bool option"
  next_packet_id :: "nat \<Rightarrow> uint16_t"
  incoming :: "nat \<Rightarrow> (MQTTPacketInfo_t option \<times> MQTTDeserializedInfo_t option) list"
  publish_to_resend :: "nat \<Rightarrow> uint16_t list"
  suback_status_codes :: "MQTTPacketInfo_t \<Rightarrow> MQTTStatus_t \<times> uint8_t list \<times> nat"
  malloc_succeeds :: "nat \<Rightarrow> bool"
  dequeued_handle :: "nat \<Rightarrow> cy_mqtt_t"

text \<open>
  The state: the globals of the file, the memory of the client objects, the set of
  addresses that are allocated, and the trace.
\<close>

record mqtt_state =
  mqtt_handle_database :: "mqtt_data_base_t list"
  mqtt_handle_count :: uint8_t
  mqtt_db_mutex :: cy_mutex_t
  mqtt_lib_init_status :: bool
  mqtt_db_mutex_init_status :: bool
  mqtt_disconnect_event_thread :: bool
  mqtt_disconnect_event_queue :: bool
  memory :: "cy_mqtt_t \<Rightarrow> cy_mqtt_object_t"
  allocated :: "cy_mqtt_t set"
  calls :: "ext_call list"

definition record_call :: "ext_call \<Rightarrow> mqtt_state \<Rightarrow> mqtt_state" where
  "record_call c s = s\<lparr>calls := calls s @ [c]\<rparr>"

definition now :: "mqtt_state \<Rightarrow> nat" where
  "now s = length (calls s)"

definition update_object ::
  "cy_mqtt_t \<Rightarrow> (cy_mqtt_object_t \<Rightarrow> cy_mqtt_object_t) \<Rightarrow> mqtt_state \<Rightarrow> mqtt_state" where
  "update_object h f s = s\<lparr>memory := (memory s)(h := f (memory s h))\<rparr>"

definition set_mutex_state :: "mutex_ref \<Rightarrow> cy_mutex_t \<Rightarrow> mqtt_state \<Rightarrow> mqtt_state" where
  "set_mutex_state m v s =
     (case m of
        MQTT_DB_MUTEX \<Rightarrow> s\<lparr>mqtt_db_mutex := v\<rparr>
      | PROCESS_MUTEX h \<Rightarrow> update_object h (\<lambda>obj. obj\<lparr>process_mutex := v\<rparr>) s)"

text \<open>The RTOS calls: the answer comes from the environment, a successful call takes effect.\<close>

definition cy_rtos_get_mutex :: "mqtt_env \<Rightarrow> mutex_ref \<Rightarrow> mqtt_state \<Rightarrow> cy_rslt_t \<times> mqtt_state" where
  "cy_rtos_get_mutex env m s =
     (let r = rtos_result env (now s); s1 = record_call (Call_cy_rtos_get_mutex m) s
      in (r, if r = CY_RSLT_SUCCESS then set_mutex_state m MUTEX_LOCKED s1 else s1))"

definition cy_rtos_set_mutex :: "mqtt_env \<Rightarrow> mutex_ref \<Rightarrow> mqtt_state \<Rightarrow> cy_rslt_t \<times> mqtt_state" where
  "cy_rtos_set_mutex env m s =
     (let r = rtos_result env (now s); s1 = record_call (Call_cy_rtos_set_mutex m) s
      in (r, if r = CY_RSLT_SUCCESS then set_mutex_state m MUTEX_UNLOCKED s1 else s1))"

definition cy_rtos_deinit_mutex :: "mqtt_env \<Rightarrow> mutex_ref \<Rightarrow> mqtt_state \<Rightarrow> cy_rslt_t \<times> mqtt_state" where
  "cy_rtos_deinit_mutex env m s =
     (let r = rtos_result env (now s); s1 = record_call (Call_cy_rtos_deinit_mutex m) s
      in (r, if r = CY_RSLT_SUCCESS then set_mutex_state m MUTEX_NULL s1 else s1))"

definition rtos_call :: "mqtt_env \<Rightarrow> ext_call \<Rightarrow> mqtt_state \<Rightarrow> cy_rslt_t \<times> mqtt_state" where
  "rtos_call env c s = (rtos_result env (now s), record_call c s)"

definition awsport_call :: "mqtt_env \<Rightarrow> ext_call \<Rightarrow> mqtt_state \<Rightarrow> cy_rslt_t \<times> mqtt_state" where
  "awsport_call env c s = (awsport_result env (now s), record_call c s)"

definition codec_call :: "mqtt_env \<Rightarrow> ext_call \<Rightarrow> mqtt_state \<Rightarrow> MQTTStatus_t \<times> mqtt_state" where
  "codec_call env c s = (mqtt_status env (now s), record_call c s)"

section \<open>Library teardown and object deletion\<close>

text \<open>\<^verbatim>\<open>cy_mqtt_deinit\<close>, lines 2086 to 2155.\<close>

definition cy_mqtt_deinit :: "mqtt_env \<Rightarrow> mqtt_state \<Rightarrow> cy_rslt_t \<times> mqtt_state" where
  "cy_mqtt_deinit env s =
     (if \<not> mqtt_lib_init_status s \<or> \<not> mqtt_db_mutex_init_status s
      then (CY_RSLT_MODULE_MQTT_DEINIT_FAIL, s)
      else if mqtt_handle_count s \<noteq> 0 then (CY_RSLT_SUCCESS, s)
      else
        let (r1, s1) = cy_rtos_deinit_mutex env MQTT_DB_MUTEX s in
        if r1 \<noteq> CY_RSLT_SUCCESS then (r1, s1)
        else
          let s2 = s1\<lparr>mqtt_db_mutex_init_status := False\<rparr>;
              (r2, s3) = awsport_call env Call_cy_awsport_network_deinit s2 in
          if r2 \<noteq> CY_RSLT_SUCCESS then (r2, s3)
          else
            let (r3, s4) =
                  (if mqtt_disconnect_event_thread s3
                   then
                     let (rt, st) = rtos_call env (Call_cy_rtos_terminate_thread MQTT_DISCONNECT_EVENT_THREAD) s3 in
                     if rt \<noteq> CY_RSLT_SUCCESS then (rt, st)
                     else
                       let (rj, sj) = rtos_call env (Call_cy_rtos_join_thread MQTT_DISCONNECT_EVENT_THREAD) st in
                       if rj \<noteq> CY_RSLT_SUCCESS then (rj, sj)
                       else (CY_RSLT_SUCCESS, sj\<lparr>mqtt_disconnect_event_thread := False\<rparr>)
                   else (CY_RSLT_SUCCESS, s3)) in
            if r3 \<noteq> CY_RSLT_SUCCESS then (r3, s4)
            else
              let (r4, s5) = rtos_call env Call_cy_rtos_deinit_queue s4 in
              if r4 \<noteq> CY_RSLT_SUCCESS then (r4, s5)
              else (CY_RSLT_SUCCESS,
                    s5\<lparr>mqtt_disconnect_event_queue := False, mqtt_lib_init_status := False\<rparr>))"

text \<open>
  \<^verbatim>\<open>memset( mqtt_obj, 0x00, sizeof( cy_mqtt_object_t ) )\<close>: every field is zero; the two
  arrays keep their declared sizes.
\<close>

definition zero_pubinfo :: MQTTPublishInfo_t where
  "zero_pubinfo =
     \<lparr>qos = MQTTQoS0, retain = False, dup = False, pTopicName = [], topicNameLength = 0,
      pPayload = [], payloadLength = 0\<rparr>"

definition zero_pubpack :: cy_mqtt_pubpack_t where
  "zero_pubpack = \<lparr>packetid = 0, pubinfo = zero_pubinfo\<rparr>"

definition memset_object :: "cy_mqtt_object_t \<Rightarrow> cy_mqtt_object_t" where
  "memset_object obj =
     \<lparr>mqtt_obj_initialized = False, mqtt_secure_mode = False, mqtt_session_established = False,
      broker_session_present = False, mqtt_conn_status = False, mqtt_obj_index = 0,
      recv_thread = False, mqtt_event_cb = 0,
      sub_ack_status = replicate (length (sub_ack_status obj)) 0,
      num_of_subs_in_req = 0, unsub_ack_received = False,
      pub_ack_status = \<lparr>ack_packetid = 0, puback_status = False\<rparr>,
      sent_packet_id = 0,
      outgoing_pub_packets = replicate (length (outgoing_pub_packets obj)) zero_pubpack,
      process_mutex = MUTEX_NULL, user_data = 0\<rparr>"

definition free_object :: "cy_mqtt_t \<Rightarrow> mqtt_state \<Rightarrow> mqtt_state" where
  "free_object h s = record_call (Call_free (MQTT_OBJECT h)) (s\<lparr>allocated := allocated s - {h}\<rparr>)"

text \<open>\<^verbatim>\<open>cy_mqtt_delete\<close>, lines 2033 to 2082.\<close>

definition cy_mqtt_delete :: "mqtt_env \<Rightarrow> cy_mqtt_t \<Rightarrow> mqtt_state \<Rightarrow> cy_rslt_t \<times> mqtt_state" where
  "cy_mqtt_delete env h s =
     (if h = NULL then (CY_RSLT_MODULE_MQTT_BADARG, s)
      else if \<not> mqtt_obj_initialized (memory s h) then (CY_RSLT_MODULE_MQTT_OBJ_NOT_INITIALIZED, s)
      else
        let (r1, s1) = cy_rtos_deinit_mutex env (PROCESS_MUTEX h) s;
            (r2, s2) = cy_rtos_get_mutex env MQTT_DB_MUTEX s1 in
        if r2 \<noteq> CY_RSLT_SUCCESS then (r2, s2)
        else
          let i = unat (mqtt_obj_index (memory s2 h));
              s3 = s2\<lparr>mqtt_handle_database :=
                        (mqtt_handle_database s2)[i := \<lparr>mqtt_handle = NULL, mqtt_context = NULL_CONTEXT\<rparr>],
                      mqtt_handle_count := mqtt_handle_count s2 - 1\<rparr>;
              (r4, s4) = cy_rtos_set_mutex env MQTT_DB_MUTEX s3 in
          if r4 \<noteq> CY_RSLT_SUCCESS then (r4, s4)
          else (CY_RSLT_SUCCESS, free_object h (update_object h memset_object s4)))"

section \<open>Disconnect\<close>

text \<open>\<^verbatim>\<open>cy_mqtt_disconnect\<close>, lines 1927 to 2029.\<close>

definition cy_mqtt_disconnect :: "mqtt_env \<Rightarrow> cy_mqtt_t \<Rightarrow> mqtt_state \<Rightarrow> cy_rslt_t \<times> mqtt_state" where
  "cy_mqtt_disconnect env h s =
     (if h = NULL then (CY_RSLT_MODULE_MQTT_BADARG, s)
      else
        let (r1, s1) = cy_rtos_get_mutex env (PROCESS_MUTEX h) s in
        if r1 \<noteq> CY_RSLT_SUCCESS then (r1, s1)
        else if \<not> mqtt_obj_initialized (memory s1 h) then (CY_RSLT_MODULE_MQTT_OBJ_NOT_INITIALIZED, s1)
        else if \<not> mqtt_conn_status (memory s1 h) then (CY_RSLT_MODULE_MQTT_NOT_CONNECTED, s1)
        else
          let (r2, s2) =
                (if recv_thread (memory s1 h)
                 then
                   let (rt, st) = rtos_call env (Call_cy_rtos_terminate_thread (RECV_THREAD h)) s1 in
                   if rt \<noteq> CY_RSLT_SUCCESS then (rt, st)
                   else
                     let (rj, sj) = rtos_call env (Call_cy_rtos_join_thread (RECV_THREAD h)) st in
                     if rj \<noteq> CY_RSLT_SUCCESS then (rj, sj)
                     else (CY_RSLT_SUCCESS, update_object h (\<lambda>obj. obj\<lparr>recv_thread := False\<rparr>) sj)
                 else (CY_RSLT_SUCCESS, s1)) in
          if r2 \<noteq> CY_RSLT_SUCCESS then (r2, s2)
          else
            let (m3, s3) = codec_call env (Call_MQTT_Disconnect h) s2;
                s4 = update_object h (\<lambda>obj. obj\<lparr>mqtt_session_established := False\<rparr>) s3;
                (r5, s5) = awsport_call env (Call_cy_awsport_network_disconnect h) s4;
                (r6, s6) = awsport_call env (Call_cy_awsport_network_delete h) s5;
                s7 = update_object h (\<lambda>obj. obj\<lparr>mqtt_conn_status := False\<rparr>) s6
            in cy_rtos_set_mutex env (PROCESS_MUTEX h) s7)"

section \<open>The store of outgoing PUBLISH packets\<close>

text \<open>The first index of a list whose element satisfies \<open>P\<close>, counted from \<open>i\<close>: a C loop
  \<^verbatim>\<open>for( index = i; ...; index++ ) if( P ) break;\<close>\<close>

primrec first_index :: "('a \<Rightarrow> bool) \<Rightarrow> 'a list \<Rightarrow> nat \<Rightarrow> nat option" where
  "first_index P [] i = None"
| "first_index P (x # xs) i = (if P x then Some i else first_index P xs (Suc i))"

text \<open>\<^verbatim>\<open>mqtt_cleanup_outgoing_publish\<close>, lines 190 to 200.\<close>

definition mqtt_cleanup_outgoing_publish ::
  "mqtt_config \<Rightarrow> cy_mqtt_object_t \<Rightarrow> nat \<Rightarrow> cy_rslt_t \<times> cy_mqtt_object_t" where
  "mqtt_cleanup_outgoing_publish cfg mqtt_obj index =
     (if index \<ge> CY_MQTT_MAX_OUTGOING_PUBLISHES cfg then (CY_RSLT_MODULE_MQTT_BADARG, mqtt_obj)
      else (CY_RSLT_SUCCESS,
            mqtt_obj\<lparr>outgoing_pub_packets := (outgoing_pub_packets mqtt_obj)[index := zero_pubpack]\<rparr>))"

text \<open>\<^verbatim>\<open>mqtt_cleanup_outgoing_publish_with_packet_id\<close>, lines 204 to 231. The loop stops at
  the first slot that holds the packet id.\<close>

definition mqtt_cleanup_outgoing_publish_with_packet_id ::
  "mqtt_config \<Rightarrow> cy_mqtt_object_t \<Rightarrow> uint16_t \<Rightarrow> cy_rslt_t \<times> cy_mqtt_object_t" where
  "mqtt_cleanup_outgoing_publish_with_packet_id cfg mqtt_obj pid =
     (if pid = 0 then (CY_RSLT_MODULE_MQTT_BADARG, mqtt_obj)
      else
        case first_index (\<lambda>p. packetid p = pid)
               (take (CY_MQTT_MAX_OUTGOING_PUBLISHES cfg) (outgoing_pub_packets mqtt_obj)) 0 of
          None \<Rightarrow> (CY_RSLT_SUCCESS, mqtt_obj)
        | Some index \<Rightarrow> mqtt_cleanup_outgoing_publish cfg mqtt_obj index)"

text \<open>\<^verbatim>\<open>mqtt_get_next_free_index_for_publish\<close>, lines 262 to 297: \<open>None\<close> is the result
  \<^verbatim>\<open>CY_RSLT_MODULE_MQTT_ERROR\<close>, \<open>Some index\<close> is success with \<^verbatim>\<open>*pindex = index\<close>.\<close>

definition mqtt_get_next_free_index_for_publish :: "mqtt_config \<Rightarrow> cy_mqtt_object_t \<Rightarrow> nat option" where
  "mqtt_get_next_free_index_for_publish cfg mqtt_obj =
     first_index (\<lambda>p. packetid p = 0)
       (take (CY_MQTT_MAX_OUTGOING_PUBLISHES cfg) (outgoing_pub_packets mqtt_obj)) 0"

text \<open>\<^verbatim>\<open>mqtt_cleanup_outgoing_publishes\<close>, lines 301 to 312.\<close>

definition mqtt_cleanup_outgoing_publishes :: "cy_mqtt_object_t \<Rightarrow> cy_mqtt_object_t" where
  "mqtt_cleanup_outgoing_publishes mqtt_obj =
     mqtt_obj\<lparr>outgoing_pub_packets := replicate (length (outgoing_pub_packets mqtt_obj)) zero_pubpack\<rparr>"

section \<open>The event callback\<close>

text \<open>The packet types of MQTT 3.1.1 as the codec's header defines them.\<close>

definition MQTT_PACKET_TYPE_PUBLISH :: uint8_t where "MQTT_PACKET_TYPE_PUBLISH = 0x30"
definition MQTT_PACKET_TYPE_PUBACK :: uint8_t where "MQTT_PACKET_TYPE_PUBACK = 0x40"
definition MQTT_PACKET_TYPE_PUBREC :: uint8_t where "MQTT_PACKET_TYPE_PUBREC = 0x50"
definition MQTT_PACKET_TYPE_PUBREL :: uint8_t where "MQTT_PACKET_TYPE_PUBREL = 0x62"
definition MQTT_PACKET_TYPE_PUBCOMP :: uint8_t where "MQTT_PACKET_TYPE_PUBCOMP = 0x70"
definition MQTT_PACKET_TYPE_SUBACK :: uint8_t where "MQTT_PACKET_TYPE_SUBACK = 0x90"
definition MQTT_PACKET_TYPE_UNSUBACK :: uint8_t where "MQTT_PACKET_TYPE_UNSUBACK = 0xB0"
definition MQTT_PACKET_TYPE_PINGRESP :: uint8_t where "MQTT_PACKET_TYPE_PINGRESP = 0xD0"
definition MQTT_PACKET_TYPE_DISCONNECT :: uint8_t where "MQTT_PACKET_TYPE_DISCONNECT = 0xE0"

text \<open>\<^verbatim>\<open>mqtt_update_suback_status\<close>, lines 235 to 258. The copy loop writes
  \<^verbatim>\<open>sub_ack_status[i] = payload[i]\<close> for \<open>i\<close> below \<^verbatim>\<open>num_of_subs_in_req\<close>.\<close>

definition mqtt_update_suback_status ::
  "mqtt_env \<Rightarrow> cy_mqtt_object_t \<Rightarrow> MQTTPacketInfo_t \<Rightarrow> cy_rslt_t \<times> cy_mqtt_object_t" where
  "mqtt_update_suback_status env mqtt_obj packet_info =
     (let (mqttStatus, payload, num_of_subscriptions) = suback_status_codes env packet_info in
      if mqttStatus \<noteq> MQTTSuccess \<or> num_of_subscriptions \<noteq> unat (num_of_subs_in_req mqtt_obj)
      then (CY_RSLT_MODULE_MQTT_ERROR, mqtt_obj\<lparr>num_of_subs_in_req := 0\<rparr>)
      else (CY_RSLT_SUCCESS,
            mqtt_obj\<lparr>sub_ack_status :=
                        foldl (\<lambda>st i. st[i := payload ! i]) (sub_ack_status mqtt_obj)
                          [0 ..< unat (num_of_subs_in_req mqtt_obj)],
                     num_of_subs_in_req := 0\<rparr>))"

text \<open>The registry scan at the head of \<^verbatim>\<open>mqtt_event_callback\<close>, lines 425 to 432.\<close>

primrec mqtt_find_handle :: "mqtt_data_base_t list \<Rightarrow> MQTTContext_ptr \<Rightarrow> cy_mqtt_t" where
  "mqtt_find_handle [] ctx = NULL"
| "mqtt_find_handle (e # es) ctx =
     (if mqtt_context e = ctx then mqtt_handle e else mqtt_find_handle es ctx)"

text \<open>The upcall \<^verbatim>\<open>mqtt_obj->mqtt_event_cb( handle, event, mqtt_obj->user_data )\<close> behind its
  \<^verbatim>\<open>NULL\<close> test.\<close>

definition app_callback :: "cy_mqtt_t \<Rightarrow> cy_mqtt_event_t \<Rightarrow> mqtt_state \<Rightarrow> mqtt_state" where
  "app_callback h ev s =
     (if mqtt_event_cb (memory s h) \<noteq> 0
      then record_call (Call_mqtt_event_cb (mqtt_event_cb (memory s h)) h ev (user_data (memory s h))) s
      else s)"

definition received_qos :: "MQTTQoS_t \<Rightarrow> cy_mqtt_qos_t" where
  "received_qos q = (case q of MQTTQoS0 \<Rightarrow> CY_MQTT_QOS0 | MQTTQoS1 \<Rightarrow> CY_MQTT_QOS1 | MQTTQoS2 \<Rightarrow> CY_MQTT_QOS2)"

text \<open>The code of the cases \<^verbatim>\<open>MQTT_PACKET_TYPE_PUBREC\<close> (lines 539 to 558) and
  \<^verbatim>\<open>MQTT_PACKET_TYPE_PUBACK\<close> (lines 568 to 587), which are the same text.\<close>

definition mqtt_puback_received ::
  "mqtt_config \<Rightarrow> MQTTDeserializedInfo_t \<Rightarrow> cy_mqtt_object_t \<Rightarrow> cy_mqtt_object_t" where
  "mqtt_puback_received cfg di mqtt_obj =
     (let packet_id = packetIdentifier di;
          obj1 = (if deserializationResult di \<noteq> MQTTSuccess then mqtt_obj
                  else if packet_id = ack_packetid (pub_ack_status mqtt_obj)
                  then mqtt_obj\<lparr>pub_ack_status := (pub_ack_status mqtt_obj)\<lparr>puback_status := True\<rparr>\<rparr>
                  else mqtt_obj\<lparr>pub_ack_status := (pub_ack_status mqtt_obj)\<lparr>puback_status := False\<rparr>\<rparr>)
      in snd (mqtt_cleanup_outgoing_publish_with_packet_id cfg obj1 packet_id))"

text \<open>\<^verbatim>\<open>mqtt_event_callback\<close>, lines 406 to 599.\<close>

definition mqtt_event_callback ::
  "mqtt_config \<Rightarrow> mqtt_env \<Rightarrow> MQTTContext_ptr \<Rightarrow> MQTTPacketInfo_t option \<Rightarrow>
   MQTTDeserializedInfo_t option \<Rightarrow> mqtt_state \<Rightarrow> mqtt_state" where
  "mqtt_event_callback cfg env param_mqtt_context param_packet_info param_deserialized_info s =
     (case param_packet_info of None \<Rightarrow> s | Some pi \<Rightarrow>
      (case param_deserialized_info of None \<Rightarrow> s | Some di \<Rightarrow>
      if param_mqtt_context = NULL_CONTEXT then s
      else
        let handle = mqtt_find_handle (take (CY_MQTT_MAX_HANDLE cfg) (mqtt_handle_database s))
                       param_mqtt_context in
        if handle = NULL then s
        else
          let mqtt_obj = memory s handle; packet_id = packetIdentifier di in
          if (packet_type pi AND 0xF0) = MQTT_PACKET_TYPE_PUBLISH then
            (case pPublishInfo di of
               None \<Rightarrow> s
             | Some p \<Rightarrow>
                 app_callback handle
                   (CY_MQTT_EVENT_TYPE_PUBLISH_RECEIVE packet_id
                      \<lparr>msg_qos = received_qos (qos p), topic = pTopicName p,
                       topic_len = topicNameLength p, payload = pPayload p,
                       payload_len = payloadLength p, msg_retain = retain p, msg_dup = dup p\<rparr>) s)
          else if packet_type pi = MQTT_PACKET_TYPE_SUBACK then
            (if sent_packet_id mqtt_obj \<noteq> packet_id then s
             else update_object handle (\<lambda>obj. snd (mqtt_update_suback_status env obj pi)) s)
          else if packet_type pi = MQTT_PACKET_TYPE_UNSUBACK then
            (if sent_packet_id mqtt_obj \<noteq> packet_id
             then update_object handle (\<lambda>obj. obj\<lparr>unsub_ack_received := False\<rparr>) s
             else update_object handle (\<lambda>obj. obj\<lparr>unsub_ack_received := True\<rparr>) s)
          else if packet_type pi = MQTT_PACKET_TYPE_PINGRESP then
            (if deserializationResult di \<noteq> MQTTSuccess
             then update_object handle (\<lambda>obj. obj\<lparr>mqtt_session_established := False\<rparr>)
                    (app_callback handle (CY_MQTT_EVENT_TYPE_DISCONNECT CY_MQTT_DISCONN_TYPE_BROKER_DOWN) s)
             else s)
          else if packet_type pi = MQTT_PACKET_TYPE_PUBREC then
            update_object handle (mqtt_puback_received cfg di) s
          else if packet_type pi = MQTT_PACKET_TYPE_PUBREL then s
          else if packet_type pi = MQTT_PACKET_TYPE_PUBCOMP then s
          else if packet_type pi = MQTT_PACKET_TYPE_PUBACK then
            update_object handle (mqtt_puback_received cfg di) s
          else s))"

text \<open>
  \<^verbatim>\<open>MQTT_ProcessLoop\<close> of the codec, as far as this file sees it: it hands the packets
  that arrived to \<^verbatim>\<open>mqtt_event_callback\<close>, with the context of the client, and returns a
  status.
\<close>

definition MQTT_ProcessLoop ::
  "mqtt_config \<Rightarrow> mqtt_env \<Rightarrow> cy_mqtt_t \<Rightarrow> mqtt_state \<Rightarrow> MQTTStatus_t \<times> mqtt_state" where
  "MQTT_ProcessLoop cfg env h s =
     (let t = now s;
          s1 = record_call (Call_MQTT_ProcessLoop h) s
      in (mqtt_status env t,
          foldl (\<lambda>st (pi, di). mqtt_event_callback cfg env (MQTT_CONTEXT_OF h) pi di st) s1
            (incoming env t)))"

section \<open>The receive thread and the disconnect-event thread\<close>

text \<open>One pass through the loop of \<^verbatim>\<open>mqtt_receive_thread\<close>, lines 816 to 861; the Boolean
  is \<open>False\<close> when the pass leaves the loop.\<close>

definition mqtt_receive_thread_iteration ::
  "mqtt_config \<Rightarrow> mqtt_env \<Rightarrow> cy_mqtt_t \<Rightarrow> mqtt_state \<Rightarrow> bool \<times> mqtt_state" where
  "mqtt_receive_thread_iteration cfg env h s =
     (let (r1, s1) = cy_rtos_get_mutex env (PROCESS_MUTEX h) s in
      if r1 \<noteq> CY_RSLT_SUCCESS then (False, s1)
      else
        let s2 =
              (if mqtt_session_established (memory s1 h)
               then
                 let (mqtt_status, sa) = MQTT_ProcessLoop cfg env h s1 in
                 if mqtt_status \<noteq> MQTTSuccess
                 then
                   (if mqtt_status = MQTTRecvFailed \<or> mqtt_status = MQTTSendFailed \<or>
                       mqtt_status = MQTTBadResponse \<or> mqtt_status = MQTTKeepAliveTimeout \<or>
                       mqtt_status = MQTTIllegalState
                    then
                      (if mqtt_status = MQTTKeepAliveTimeout
                       then update_object h (\<lambda>obj. obj\<lparr>mqtt_session_established := False\<rparr>)
                              (app_callback h (CY_MQTT_EVENT_TYPE_DISCONNECT CY_MQTT_DISCONN_TYPE_BROKER_DOWN) sa)
                       else sa)
                    else sa)
                 else sa
               else s1);
            (r3, s3) = cy_rtos_set_mutex env (PROCESS_MUTEX h) s2
        in (True, record_call (Call_cy_rtos_delay_milliseconds 100) s3))"

text \<open>One pass through the loop of \<^verbatim>\<open>mqtt_disconn_event_thread\<close>, lines 748 to 793.\<close>

definition mqtt_disconn_event_thread_iteration :: "mqtt_env \<Rightarrow> mqtt_state \<Rightarrow> mqtt_state" where
  "mqtt_disconn_event_thread_iteration env s =
     (let handle = dequeued_handle env (now s);
          (r1, s1) = rtos_call env Call_cy_rtos_get_queue s in
      if r1 \<noteq> CY_RSLT_SUCCESS then s1
      else if handle = NULL then s1
      else
        let (r2, s2) = cy_rtos_get_mutex env (PROCESS_MUTEX handle) s1 in
        if r2 \<noteq> CY_RSLT_SUCCESS then s2
        else
          let s3 =
                (if mqtt_session_established (memory s2 handle)
                 then update_object handle (\<lambda>obj. obj\<lparr>mqtt_session_established := False\<rparr>)
                        (app_callback handle (CY_MQTT_EVENT_TYPE_DISCONNECT CY_MQTT_DISCONN_TYPE_NETWORK_DOWN) s2)
                 else s2)
          in snd (cy_rtos_set_mutex env (PROCESS_MUTEX handle) s3))"

section \<open>Publish resend\<close>

definition MQTT_Publish ::
  "mqtt_env \<Rightarrow> cy_mqtt_t \<Rightarrow> MQTTPublishInfo_t \<Rightarrow> uint16_t \<Rightarrow> mqtt_state \<Rightarrow> MQTTStatus_t \<times> mqtt_state" where
  "MQTT_Publish env h info pid s = codec_call env (Call_MQTT_Publish h info pid) s"

definition update_slot ::
  "nat \<Rightarrow> (cy_mqtt_pubpack_t \<Rightarrow> cy_mqtt_pubpack_t) \<Rightarrow> cy_mqtt_object_t \<Rightarrow> cy_mqtt_object_t" where
  "update_slot index f obj =
     obj\<lparr>outgoing_pub_packets :=
           (outgoing_pub_packets obj)[index := f (outgoing_pub_packets obj ! index)]\<rparr>"

definition set_dup :: "cy_mqtt_pubpack_t \<Rightarrow> cy_mqtt_pubpack_t" where
  "set_dup p = p\<lparr>pubinfo := (pubinfo p)\<lparr>dup := True\<rparr>\<rparr>"

text \<open>
  The inner \<^verbatim>\<open>for\<close> loop of \<^verbatim>\<open>mqtt_handle_publish_resend\<close>, lines 335 to 368, from
  \<open>index\<close> on. It returns \<^verbatim>\<open>found_packetid\<close>, whether a send failed (which sets
  \<^verbatim>\<open>result\<close> and leaves this loop by \<^verbatim>\<open>break\<close>), and the state.
\<close>

function resend_scan ::
  "mqtt_config \<Rightarrow> mqtt_env \<Rightarrow> cy_mqtt_t \<Rightarrow> uint16_t \<Rightarrow> nat \<Rightarrow> bool \<Rightarrow> mqtt_state \<Rightarrow>
   bool \<times> bool \<times> mqtt_state" where
  "resend_scan cfg env h packetid_to_resend index found_packetid s =
     (if index < CY_MQTT_MAX_OUTGOING_PUBLISHES cfg then
        (if packetid (outgoing_pub_packets (memory s h) ! index) = packetid_to_resend then
           (if qos (pubinfo (outgoing_pub_packets (memory s h) ! index)) \<noteq> MQTTQoS0 then
              (let s1 = update_object h (update_slot index set_dup) s;
                   slot = outgoing_pub_packets (memory s1 h) ! index;
                   r = MQTT_Publish env h (pubinfo slot) (packetid slot) s1
               in if fst r \<noteq> MQTTSuccess then (True, True, snd r)
                  else resend_scan cfg env h packetid_to_resend (Suc index) True (snd r))
            else resend_scan cfg env h packetid_to_resend (Suc index) True s)
         else resend_scan cfg env h packetid_to_resend (Suc index) found_packetid s)
      else (found_packetid, False, s))"
  by pat_completeness auto
termination
  by (relation "measure (\<lambda>(cfg, env, h, p, index, f, s). CY_MQTT_MAX_OUTGOING_PUBLISHES cfg - index)")
     auto

declare resend_scan.simps [simp del]

text \<open>
  The \<^verbatim>\<open>while\<close> loop of \<^verbatim>\<open>mqtt_handle_publish_resend\<close>, lines 330 to 382, over the packet
  ids that \<^verbatim>\<open>MQTT_PublishToResend\<close> yields; the end of the list, like the id 0, is
  \<^verbatim>\<open>MQTT_PACKET_ID_INVALID\<close>.
\<close>

fun resend_loop ::
  "mqtt_config \<Rightarrow> mqtt_env \<Rightarrow> cy_mqtt_t \<Rightarrow> uint16_t list \<Rightarrow> cy_rslt_t \<Rightarrow> mqtt_state \<Rightarrow>
   cy_rslt_t \<times> mqtt_state" where
  "resend_loop cfg env h [] result s = (result, s)"
| "resend_loop cfg env h (packetid_to_resend # rest) result s =
     (if packetid_to_resend \<noteq> 0 then
        (case resend_scan cfg env h packetid_to_resend 0 False s of
           (found_packetid, failed, s1) \<Rightarrow>
             if \<not> found_packetid then (CY_RSLT_MODULE_MQTT_PUBLISH_FAIL, s1)
             else resend_loop cfg env h rest
                    (if failed then CY_RSLT_MODULE_MQTT_PUBLISH_FAIL else result) s1)
      else (result, s))"

definition mqtt_handle_publish_resend ::
  "mqtt_config \<Rightarrow> mqtt_env \<Rightarrow> cy_mqtt_t \<Rightarrow> mqtt_state \<Rightarrow> cy_rslt_t \<times> mqtt_state" where
  "mqtt_handle_publish_resend cfg env h s =
     resend_loop cfg env h (publish_to_resend env (now s)) CY_RSLT_SUCCESS s"

section \<open>Connect\<close>

text \<open>\<^verbatim>\<open>mqtt_establish_session\<close>, lines 603 to 651. The codec may write the
  \<^verbatim>\<open>session_present\<close> flag whatever status it returns.\<close>

definition mqtt_establish_session ::
  "mqtt_env \<Rightarrow> cy_mqtt_t \<Rightarrow> MQTTConnectInfo_t \<Rightarrow> MQTTPublishInfo_t option \<Rightarrow> bool \<Rightarrow> mqtt_state \<Rightarrow>
   cy_rslt_t \<times> mqtt_state" where
  "mqtt_establish_session env h connect_info will_msg create_clean_session s =
     (let (r1, s1) = cy_rtos_get_mutex env (PROCESS_MUTEX h) s in
      if r1 \<noteq> CY_RSLT_SUCCESS then (CY_RSLT_MODULE_MQTT_CONNECT_FAIL, s1)
      else
        let t = now s1;
            (mqttStatus, s2) = codec_call env (Call_MQTT_Connect h connect_info will_msg) s1;
            s3 = (case session_present env t of
                    None \<Rightarrow> s2
                  | Some b \<Rightarrow> update_object h (\<lambda>obj. obj\<lparr>broker_session_present := b\<rparr>) s2) in
        if mqttStatus \<noteq> MQTTSuccess
        then (CY_RSLT_MODULE_MQTT_CONNECT_FAIL, snd (cy_rtos_set_mutex env (PROCESS_MUTEX h) s3))
        else
          let s4 = update_object h (\<lambda>obj. obj\<lparr>mqtt_session_established := True\<rparr>) s3;
              (r5, s5) = cy_rtos_set_mutex env (PROCESS_MUTEX h) s4 in
          if r5 \<noteq> CY_RSLT_SUCCESS then (CY_RSLT_MODULE_MQTT_CONNECT_FAIL, s5)
          else (r5, s5))"

text \<open>
  The retry helper, which is not part of the file: it sleeps and counts the attempt while
  attempts are left, and reports exhaustion (resetting the count) otherwise.
\<close>

definition RetryUtils_BackoffAndSleep ::
  "mqtt_config \<Rightarrow> nat \<Rightarrow> mqtt_state \<Rightarrow> RetryUtilsStatus_t \<times> nat \<times> mqtt_state" where
  "RetryUtils_BackoffAndSleep cfg attemptsDone s =
     (if attemptsDone < MAX_RETRY_ATTEMPTS cfg
      then (RetryUtilsSuccess, Suc attemptsDone, record_call Call_RetryUtils_BackoffAndSleep s)
      else (RetryUtilsRetriesExhausted, 0, record_call Call_RetryUtils_BackoffAndSleep s))"

text \<open>The body of the \<^verbatim>\<open>do\<close> loop of \<^verbatim>\<open>cy_mqtt_connect\<close>, lines 1225 to 1263: the result,
  \<^verbatim>\<open>retryUtilsStatus\<close>, the attempts counted so far, and the state.\<close>

definition network_connect_attempt ::
  "mqtt_config \<Rightarrow> mqtt_env \<Rightarrow> cy_mqtt_t \<Rightarrow> nat \<Rightarrow> RetryUtilsStatus_t \<Rightarrow> mqtt_state \<Rightarrow>
   cy_rslt_t \<times> RetryUtilsStatus_t \<times> nat \<times> mqtt_state" where
  "network_connect_attempt cfg env h attemptsDone retryUtilsStatus s =
     (let (result, s1) = awsport_call env (Call_cy_awsport_network_create h) s in
      if result \<noteq> CY_RSLT_SUCCESS
      then (case RetryUtils_BackoffAndSleep cfg attemptsDone s1 of (rs, a, s2) \<Rightarrow> (result, rs, a, s2))
      else
        let (result2, s2) = awsport_call env (Call_cy_awsport_network_connect h) s1;
            (rs, a, s4) =
              (if result2 \<noteq> CY_RSLT_SUCCESS
               then (case RetryUtils_BackoffAndSleep cfg attemptsDone s2 of
                       (rs, a, s3) \<Rightarrow> (rs, a, snd (awsport_call env (Call_cy_awsport_network_delete h) s3)))
               else (retryUtilsStatus, attemptsDone, s2))
        in (if rs = RetryUtilsRetriesExhausted then CY_RSLT_MODULE_MQTT_CONNECT_FAIL else result2,
            rs, a, s4))"

function network_connect_loop ::
  "mqtt_config \<Rightarrow> mqtt_env \<Rightarrow> cy_mqtt_t \<Rightarrow> nat \<Rightarrow> RetryUtilsStatus_t \<Rightarrow> mqtt_state \<Rightarrow>
   cy_rslt_t \<times> mqtt_state" where
  "network_connect_loop cfg env h attemptsDone retryUtilsStatus s =
     (let x = network_connect_attempt cfg env h attemptsDone retryUtilsStatus s in
      if fst x \<noteq> CY_RSLT_SUCCESS \<and> fst (snd x) = RetryUtilsSuccess
      then network_connect_loop cfg env h (fst (snd (snd x))) (fst (snd x)) (snd (snd (snd x)))
      else (fst x, snd (snd (snd x))))"
  by pat_completeness auto
termination
  by (relation "measure (\<lambda>(cfg, env, h, a, r, s). Suc (MAX_RETRY_ATTEMPTS cfg) - a)")
     (auto simp: network_connect_attempt_def RetryUtils_BackoffAndSleep_def awsport_call_def
           split: if_splits prod.splits)

declare network_connect_loop.simps [simp del]

text \<open>The code behind the label \<^verbatim>\<open>exit\<close> of \<^verbatim>\<open>cy_mqtt_connect\<close>, lines 1342 to 1409.\<close>

definition connect_exit :: "mqtt_env \<Rightarrow> cy_mqtt_t \<Rightarrow> cy_rslt_t \<Rightarrow> mqtt_state \<Rightarrow> cy_rslt_t \<times> mqtt_state" where
  "connect_exit env h result s =
     (let s1 = (if mqtt_session_established (memory s h)
                then update_object h (\<lambda>obj. obj\<lparr>mqtt_session_established := False\<rparr>)
                       (snd (codec_call env (Call_MQTT_Disconnect h) s))
                else s);
          s2 = (if recv_thread (memory s1 h)
                then update_object h (\<lambda>obj. obj\<lparr>recv_thread := False\<rparr>)
                       (snd (rtos_call env (Call_cy_rtos_join_thread (RECV_THREAD h))
                          (snd (rtos_call env (Call_cy_rtos_terminate_thread (RECV_THREAD h)) s1))))
                else s1);
          s3 = snd (awsport_call env (Call_cy_awsport_network_disconnect h) s2);
          s4 = snd (awsport_call env (Call_cy_awsport_network_delete h) s3)
      in (result, s4))"

text \<open>The QoS of the codec for a public QoS, as the \<^verbatim>\<open>if\<close> chain of lines 1182 to 1193
  maps it (whatever is neither QoS 0 nor QoS 1 becomes QoS 2).\<close>

definition codec_qos :: "cy_mqtt_qos_t \<Rightarrow> MQTTQoS_t" where
  "codec_qos q = (if q = CY_MQTT_QOS0 then MQTTQoS0 else if q = CY_MQTT_QOS1 then MQTTQoS1 else MQTTQoS2)"

definition will_message :: "cy_mqtt_publish_info_t \<Rightarrow> MQTTPublishInfo_t" where
  "will_message w =
     \<lparr>qos = codec_qos (msg_qos w), retain = msg_retain w, dup = msg_dup w, pTopicName = topic w,
      topicNameLength = topic_len w, pPayload = payload w, payloadLength = payload_len w\<rparr>"

text \<open>
  The part of \<^verbatim>\<open>cy_mqtt_connect\<close> that runs once \<^verbatim>\<open>mqtt_establish_session\<close> has
  succeeded, lines 1289 to 1340: the receive thread is created when the client has none,
  the stored publishes are resent or dropped, and \<^verbatim>\<open>mqtt_conn_status\<close> is set;
  \<open>result\<close> is the result of \<^verbatim>\<open>mqtt_establish_session\<close>.
\<close>

definition connect_established ::
  "mqtt_config \<Rightarrow> mqtt_env \<Rightarrow> cy_mqtt_t \<Rightarrow> bool \<Rightarrow> cy_rslt_t \<Rightarrow> mqtt_state \<Rightarrow> cy_rslt_t \<times> mqtt_state" where
  "connect_established cfg env h create_clean_session result s =
     (let (result3, s3) =
            (if \<not> recv_thread (memory s h)
             then
               let (r, sa) = rtos_call env (Call_cy_rtos_create_thread (RECV_THREAD h)) s in
               if r \<noteq> CY_RSLT_SUCCESS then (r, sa)
               else (r, update_object h (\<lambda>obj. obj\<lparr>recv_thread := True\<rparr>) sa)
             else (result, s)) in
      if result3 \<noteq> CY_RSLT_SUCCESS then connect_exit env h result3 s3
      else
        let (result4, s4) =
              (if broker_session_present (memory s3 h) = True \<and> create_clean_session = False
               then mqtt_handle_publish_resend cfg env h s3
               else (CY_RSLT_SUCCESS, update_object h mqtt_cleanup_outgoing_publishes s3)) in
        if result4 \<noteq> CY_RSLT_SUCCESS then connect_exit env h result4 s4
        else (result4, update_object h (\<lambda>obj. obj\<lparr>mqtt_conn_status := True\<rparr>) s4))"

text \<open>
  \<^verbatim>\<open>cy_mqtt_connect\<close>, lines 1121 to 1410. \<^verbatim>\<open>connect_info\<close> is dereferenced without a
  test, so it is a value here. Of the three tests on the will message only the one on the
  QoS can fail for a Boolean \<^verbatim>\<open>dup\<close> and \<^verbatim>\<open>retain\<close>; \<^verbatim>\<open>CY_MQTT_QOS_INVALID\<close> is the one
  QoS above \<^verbatim>\<open>CY_MQTT_QOS2\<close>.
\<close>

definition cy_mqtt_connect ::
  "mqtt_config \<Rightarrow> mqtt_env \<Rightarrow> cy_mqtt_t \<Rightarrow> cy_mqtt_connect_info_t \<Rightarrow> mqtt_state \<Rightarrow> cy_rslt_t \<times> mqtt_state" where
  "cy_mqtt_connect cfg env h connect_info s =
     (if h = NULL then (CY_RSLT_MODULE_MQTT_BADARG, s)
      else if \<not> mqtt_obj_initialized (memory s h) then (CY_RSLT_MODULE_MQTT_OBJ_NOT_INITIALIZED, s)
      else if (case will_info connect_info of None \<Rightarrow> False | Some w \<Rightarrow> msg_qos w = CY_MQTT_QOS_INVALID)
      then (CY_RSLT_MODULE_MQTT_CONNECT_FAIL, s)
      else
        let connect_details =
              \<lparr>cleanSession = clean_session connect_info, keepAliveSeconds = keep_alive_sec connect_info,
               pClientIdentifier = client_id connect_info, pUserName = username connect_info,
               pPassword = password connect_info\<rparr>;
            will_msg_ptr = map_option will_message (will_info connect_info);
            (result, s1) = network_connect_loop cfg env h 0 RetryUtilsSuccess
                             (record_call Call_RetryUtils_ParamsReset s) in
        if result \<noteq> CY_RSLT_SUCCESS then (result, s1)
        else
          let create_clean_session = (if cleanSession connect_details = True then False else True);
              (result2, s2) = mqtt_establish_session env h connect_details will_msg_ptr
                                create_clean_session s1 in
          if result2 \<noteq> CY_RSLT_SUCCESS then connect_exit env h result2 s2
          else connect_established cfg env h create_clean_session result2 s2)"

section \<open>The request path\<close>

definition MQTT_GetPacketId :: "mqtt_env \<Rightarrow> cy_mqtt_t \<Rightarrow> mqtt_state \<Rightarrow> uint16_t \<times> mqtt_state" where
  "MQTT_GetPacketId env h s = (next_packet_id env (now s), record_call (Call_MQTT_GetPacketId h) s)"

subsection \<open>Publish\<close>

text \<open>
  The inner \<^verbatim>\<open>do\<close> loop of \<^verbatim>\<open>cy_mqtt_publish\<close>, lines 1503 to 1523: it returns
  \<^verbatim>\<open>result\<close>, \<^verbatim>\<open>mqttStatus\<close> and the state. \<^verbatim>\<open>timeout\<close> is a \<^verbatim>\<open>uint32_t\<close> that is
  decremented by \<^verbatim>\<open>CY_MQTT_SOCKET_RECEIVE_TIMEOUT_MS\<close>, which is 1.
\<close>

function publish_wait_ack ::
  "mqtt_config \<Rightarrow> mqtt_env \<Rightarrow> cy_mqtt_t \<Rightarrow> uint32_t \<Rightarrow> cy_rslt_t \<Rightarrow> mqtt_state \<Rightarrow>
   cy_rslt_t \<times> MQTTStatus_t \<times> mqtt_state" where
  "publish_wait_ack cfg env h timeout result s =
     (let r = MQTT_ProcessLoop cfg env h s in
      if fst r \<noteq> MQTTSuccess then (CY_RSLT_MODULE_MQTT_PUBLISH_FAIL, fst r, snd r)
      else if puback_status (pub_ack_status (memory (snd r) h)) = True
      then (CY_RSLT_SUCCESS, fst r, snd r)
      else if timeout - 1 > 0 then publish_wait_ack cfg env h (timeout - 1) result (snd r)
      else (result, fst r, snd r))"
  by pat_completeness auto
termination
proof (relation "measure (\<lambda>(cfg, env, h, timeout, result, s). unat (timeout - 1))", goal_cases)
  case 1
  show ?case by simp
next
  case (2 cfg env h timeout result s r)
  then have ne: "timeout - 1 \<noteq> 0" by (simp add: word_greater_zero_iff)
  have "unat (timeout - 1 - 1) = unat (timeout - 1) - 1"
    using ne by (rule unat_minus_one)
  moreover have "0 < unat (timeout - 1)"
    using ne unat_gt_0 by blast
  ultimately have "unat (timeout - 1 - 1) < unat (timeout - 1)"
    by arith
  then show ?case by simp
qed

declare publish_wait_ack.simps [simp del]

text \<open>The publish retry loop, lines 1480 to 1539, entered with \<^verbatim>\<open>retry\<close> attempts done.\<close>

function publish_retry_loop ::
  "mqtt_config \<Rightarrow> mqtt_env \<Rightarrow> cy_mqtt_t \<Rightarrow> nat \<Rightarrow> nat \<Rightarrow> cy_rslt_t \<Rightarrow> mqtt_state \<Rightarrow>
   cy_rslt_t \<times> mqtt_state" where
  "publish_retry_loop cfg env h publishIndex retry result s =
     (let s1 = update_object h
                 (\<lambda>obj. obj\<lparr>pub_ack_status := (pub_ack_status obj)\<lparr>puback_status := False\<rparr>\<rparr>) s;
          slot = outgoing_pub_packets (memory s1 h) ! publishIndex;
          sent = MQTT_Publish env h (pubinfo slot) (packetid slot) s1;
          x = (if fst sent \<noteq> MQTTSuccess
               then (CY_RSLT_MODULE_MQTT_PUBLISH_FAIL, fst sent, snd sent)
               else
                 let y = (if qos (pubinfo (outgoing_pub_packets (memory (snd sent) h) ! publishIndex))
                             \<noteq> MQTTQoS0
                          then
                            let w = publish_wait_ack cfg env h (CY_MQTT_ACK_RECEIVE_TIMEOUT_MS cfg)
                                      result (snd sent) in
                            if puback_status (pub_ack_status (memory (snd (snd w)) h)) = False
                            then (CY_RSLT_MODULE_MQTT_PUBLISH_FAIL, MQTTRecvFailed, snd (snd w))
                            else w
                          else (CY_RSLT_SUCCESS, fst sent, snd sent))
                 in (fst y, fst (snd y),
                     update_object h (update_slot publishIndex set_dup) (snd (snd y))))
      in if fst (snd x) \<noteq> MQTTSuccess \<and> Suc retry < CY_MQTT_MAX_RETRY_VALUE cfg
         then publish_retry_loop cfg env h publishIndex (Suc retry) (fst x) (snd (snd x))
         else (fst x, snd (snd x)))"
  by pat_completeness auto
termination
  by (relation "measure (\<lambda>(cfg, env, h, i, retry, r, s). CY_MQTT_MAX_RETRY_VALUE cfg - retry)") auto

declare publish_retry_loop.simps [simp del]

text \<open>\<^verbatim>\<open>cy_mqtt_publish\<close>, lines 1414 to 1565; \<open>None\<close> is a \<^verbatim>\<open>NULL\<close> message.\<close>

definition cy_mqtt_publish ::
  "mqtt_config \<Rightarrow> mqtt_env \<Rightarrow> cy_mqtt_t \<Rightarrow> cy_mqtt_publish_info_t option \<Rightarrow> mqtt_state \<Rightarrow>
   cy_rslt_t \<times> mqtt_state" where
  "cy_mqtt_publish cfg env h pubmsg s =
     (case pubmsg of
        None \<Rightarrow> (CY_RSLT_MODULE_MQTT_BADARG, s)
      | Some m \<Rightarrow>
        if h = NULL then (CY_RSLT_MODULE_MQTT_BADARG, s)
        else if \<not> mqtt_obj_initialized (memory s h) then (CY_RSLT_MODULE_MQTT_OBJ_NOT_INITIALIZED, s)
        else if \<not> mqtt_session_established (memory s h) then (CY_RSLT_MODULE_MQTT_NOT_CONNECTED, s)
        else
          (case mqtt_get_next_free_index_for_publish cfg (memory s h) of
            None \<Rightarrow> (CY_RSLT_MODULE_MQTT_PUBLISH_FAIL, s)
          | Some publishIndex \<Rightarrow>
            if msg_qos m = CY_MQTT_QOS0 \<or> msg_qos m = CY_MQTT_QOS1 \<or> msg_qos m = CY_MQTT_QOS2
            then
              let s1 = update_object h
                         (update_slot publishIndex
                            (\<lambda>p. p\<lparr>pubinfo := (pubinfo p)\<lparr>qos := codec_qos (msg_qos m),
                                      pTopicName := topic m, topicNameLength := topic_len m,
                                      pPayload := payload m, payloadLength := payload_len m\<rparr>\<rparr>)) s;
                  (r2, s2) = cy_rtos_get_mutex env (PROCESS_MUTEX h) s1 in
              if r2 \<noteq> CY_RSLT_SUCCESS then (r2, s2)
              else
                let (pid, s3) = MQTT_GetPacketId env h s2;
                    s4 = update_object h
                           (\<lambda>obj. (update_slot publishIndex (\<lambda>p. p\<lparr>packetid := pid\<rparr>) obj)
                                    \<lparr>pub_ack_status := (pub_ack_status obj)\<lparr>ack_packetid := pid\<rparr>\<rparr>) s3;
                    (result, s5) = publish_retry_loop cfg env h publishIndex 0 r2 s4 in
                if result \<noteq> CY_RSLT_SUCCESS
                then
                  (result,
                   snd (cy_rtos_set_mutex env (PROCESS_MUTEX h)
                          (update_object h (\<lambda>obj. snd (mqtt_cleanup_outgoing_publish cfg obj publishIndex)) s5)))
                else
                  cy_rtos_set_mutex env (PROCESS_MUTEX h)
                    (if qos (pubinfo (outgoing_pub_packets (memory s5 h) ! publishIndex)) = MQTTQoS0
                     then update_object h (\<lambda>obj. snd (mqtt_cleanup_outgoing_publish cfg obj publishIndex)) s5
                     else s5)
            else (CY_RSLT_MODULE_MQTT_PUBLISH_FAIL, s)))"

subsection \<open>Subscribe\<close>

definition MQTTSubAckFailure :: uint8_t where "MQTTSubAckFailure = 0x80"
definition MQTTSubAckSuccessQos0 :: uint8_t where "MQTTSubAckSuccessQos0 = 0x00"
definition MQTTSubAckSuccessQos1 :: uint8_t where "MQTTSubAckSuccessQos1 = 0x01"

text \<open>
  The caller's array \<^verbatim>\<open>sub_info\<close> is a function from indices to entries (the function
  reads and writes the entries below \<^verbatim>\<open>sub_count\<close>). The loop of lines 1611 to 1634
  fills \<^verbatim>\<open>sub_list\<close>; the Boolean is \<open>False\<close> when it met a QoS that is none of the three.
\<close>

function subscribe_build_list ::
  "nat \<Rightarrow> nat \<Rightarrow> (nat \<Rightarrow> cy_mqtt_subscribe_info_t) \<Rightarrow> MQTTSubscribeInfo_t list \<Rightarrow>
   bool \<times> (nat \<Rightarrow> cy_mqtt_subscribe_info_t) \<times> MQTTSubscribeInfo_t list" where
  "subscribe_build_list sub_count index sub_info sub_list =
     (if index < sub_count then
        (if sub_qos (sub_info index) = CY_MQTT_QOS0 \<or> sub_qos (sub_info index) = CY_MQTT_QOS1 \<or>
            sub_qos (sub_info index) = CY_MQTT_QOS2
         then subscribe_build_list sub_count (Suc index)
                (sub_info(index := (sub_info index)\<lparr>allocated_qos := CY_MQTT_QOS_INVALID\<rparr>))
                (sub_list @ [\<lparr>filter_qos = codec_qos (sub_qos (sub_info index)),
                              pTopicFilter = sub_topic (sub_info index),
                              topicFilterLength = sub_topic_len (sub_info index)\<rparr>])
         else (False, sub_info, sub_list))
      else (True, sub_info, sub_list))"
  by pat_completeness auto
termination
  by (relation "measure (\<lambda>(sub_count, index, sub_info, sub_list). sub_count - index)") auto

declare subscribe_build_list.simps [simp del]

text \<open>The loop of lines 1696 to 1724 that reads the SUBACK codes into \<^verbatim>\<open>allocated_qos\<close>.\<close>

definition subscribe_read_acks ::
  "uint8_t list \<Rightarrow> nat \<Rightarrow> (nat \<Rightarrow> cy_mqtt_subscribe_info_t) \<Rightarrow>
   cy_rslt_t \<times> (nat \<Rightarrow> cy_mqtt_subscribe_info_t)" where
  "subscribe_read_acks status sub_count sub_info =
     foldl (\<lambda>(result, si) index.
              if status ! index = MQTTSubAckFailure
              then (result, si(index := (si index)\<lparr>allocated_qos := CY_MQTT_QOS_INVALID\<rparr>))
              else (CY_RSLT_SUCCESS,
                    si(index := (si index)\<lparr>allocated_qos :=
                         (if status ! index = MQTTSubAckSuccessQos0 then CY_MQTT_QOS0
                          else if status ! index = MQTTSubAckSuccessQos1 then CY_MQTT_QOS1
                          else CY_MQTT_QOS2)\<rparr>)))
       (CY_RSLT_MODULE_MQTT_SUBSCRIBE_FAIL, sub_info) [0 ..< sub_count]"

text \<open>The inner \<^verbatim>\<open>do\<close> loop of \<^verbatim>\<open>cy_mqtt_subscribe\<close>, lines 1680 to 1728.\<close>

function subscribe_wait_ack ::
  "mqtt_config \<Rightarrow> mqtt_env \<Rightarrow> cy_mqtt_t \<Rightarrow> nat \<Rightarrow> uint32_t \<Rightarrow> cy_rslt_t \<Rightarrow>
   (nat \<Rightarrow> cy_mqtt_subscribe_info_t) \<Rightarrow> mqtt_state \<Rightarrow>
   cy_rslt_t \<times> MQTTStatus_t \<times> (nat \<Rightarrow> cy_mqtt_subscribe_info_t) \<times> mqtt_state" where
  "subscribe_wait_ack cfg env h sub_count timeout result sub_info s =
     (let r = MQTT_ProcessLoop cfg env h s in
      if fst r \<noteq> MQTTSuccess then (CY_RSLT_MODULE_MQTT_SUBSCRIBE_FAIL, fst r, sub_info, snd r)
      else if num_of_subs_in_req (memory (snd r) h) = 0
      then (let a = subscribe_read_acks (sub_ack_status (memory (snd r) h)) sub_count sub_info
            in (fst a, fst r, snd a, snd r))
      else if timeout - 1 > 0
      then subscribe_wait_ack cfg env h sub_count (timeout - 1) result sub_info (snd r)
      else (result, fst r, sub_info, snd r))"
  by pat_completeness auto
termination
proof (relation "measure (\<lambda>(cfg, env, h, n, timeout, result, si, s). unat (timeout - 1))", goal_cases)
  case 1
  show ?case by simp
next
  case (2 cfg env h sub_count timeout result sub_info s r)
  then have ne: "timeout - 1 \<noteq> 0" by (simp add: word_greater_zero_iff)
  have "unat (timeout - 1 - 1) = unat (timeout - 1) - 1"
    using ne by (rule unat_minus_one)
  moreover have "0 < unat (timeout - 1)"
    using ne unat_gt_0 by blast
  ultimately have "unat (timeout - 1 - 1) < unat (timeout - 1)"
    by arith
  then show ?case by simp
qed

declare subscribe_wait_ack.simps [simp del]

text \<open>The subscribe retry loop, lines 1648 to 1737.\<close>

function subscribe_retry_loop ::
  "mqtt_config \<Rightarrow> mqtt_env \<Rightarrow> cy_mqtt_t \<Rightarrow> MQTTSubscribeInfo_t list \<Rightarrow> uint8_t \<Rightarrow> nat \<Rightarrow>
   (nat \<Rightarrow> cy_mqtt_subscribe_info_t) \<Rightarrow> mqtt_state \<Rightarrow>
   cy_rslt_t \<times> (nat \<Rightarrow> cy_mqtt_subscribe_info_t) \<times> mqtt_state" where
  "subscribe_retry_loop cfg env h sub_list sub_count retry sub_info s =
     (let s1 = update_object h
                 (\<lambda>obj. obj\<lparr>sub_ack_status := replicate (length (sub_ack_status obj)) 0,
                            num_of_subs_in_req := sub_count\<rparr>) s;
          sent = codec_call env (Call_MQTT_Subscribe h sub_list (sent_packet_id (memory s1 h))) s1;
          x = (if fst sent \<noteq> MQTTSuccess
               then (CY_RSLT_MODULE_MQTT_SUBSCRIBE_FAIL, fst sent, sub_info, snd sent)
               else
                 let s2 = update_object h
                            (\<lambda>obj. obj\<lparr>sub_ack_status :=
                                          foldl (\<lambda>st i. st[i := MQTTSubAckFailure]) (sub_ack_status obj)
                                            [0 ..< unat sub_count]\<rparr>) (snd sent);
                     w = subscribe_wait_ack cfg env h (unat sub_count)
                           (CY_MQTT_ACK_RECEIVE_TIMEOUT_MS cfg) CY_RSLT_MODULE_MQTT_SUBSCRIBE_FAIL
                           sub_info s2
                 in if num_of_subs_in_req (memory (snd (snd (snd w))) h) \<noteq> 0
                    then (CY_RSLT_MODULE_MQTT_SUBSCRIBE_FAIL, MQTTRecvFailed, fst (snd (snd w)),
                          snd (snd (snd w)))
                    else w)
      in if fst (snd x) \<noteq> MQTTSuccess \<and> Suc retry < CY_MQTT_MAX_RETRY_VALUE cfg
         then subscribe_retry_loop cfg env h sub_list sub_count (Suc retry) (fst (snd (snd x)))
                (snd (snd (snd x)))
         else (fst x, fst (snd (snd x)), snd (snd (snd x))))"
  by pat_completeness auto
termination
  by (relation "measure (\<lambda>(cfg, env, h, l, n, retry, si, s). CY_MQTT_MAX_RETRY_VALUE cfg - retry)") auto

declare subscribe_retry_loop.simps [simp del]

text \<open>\<^verbatim>\<open>cy_mqtt_subscribe\<close>, lines 1569 to 1766; \<open>None\<close> is a \<^verbatim>\<open>NULL\<close> array. The result
  comes with the caller's array as the call leaves it.\<close>

definition cy_mqtt_subscribe ::
  "mqtt_config \<Rightarrow> mqtt_env \<Rightarrow> cy_mqtt_t \<Rightarrow> (nat \<Rightarrow> cy_mqtt_subscribe_info_t) option \<Rightarrow> uint8_t \<Rightarrow>
   mqtt_state \<Rightarrow> cy_rslt_t \<times> (nat \<Rightarrow> cy_mqtt_subscribe_info_t) option \<times> mqtt_state" where
  "cy_mqtt_subscribe cfg env h sub_info sub_count s =
     (case sub_info of
        None \<Rightarrow> (CY_RSLT_MODULE_MQTT_BADARG, sub_info, s)
      | Some si \<Rightarrow>
        if h = NULL \<or> unat sub_count < 1 \<or> unat sub_count > CY_MQTT_MAX_OUTGOING_SUBSCRIBES cfg
        then (CY_RSLT_MODULE_MQTT_BADARG, sub_info, s)
        else if \<not> mqtt_obj_initialized (memory s h)
        then (CY_RSLT_MODULE_MQTT_OBJ_NOT_INITIALIZED, sub_info, s)
        else if \<not> mqtt_session_established (memory s h)
        then (CY_RSLT_MODULE_MQTT_NOT_CONNECTED, sub_info, s)
        else if unat sub_count > CY_MQTT_MAX_OUTGOING_SUBSCRIBES cfg
        then (CY_RSLT_MODULE_MQTT_SUBSCRIBE_FAIL, sub_info, s)
        else
          let t0 = now s; s0 = record_call (Call_malloc SUB_LIST) s in
          if \<not> malloc_succeeds env t0 then (CY_RSLT_MODULE_MQTT_NOMEM, sub_info, s0)
          else
            (case subscribe_build_list (unat sub_count) 0 si [] of
              (False, si1, sub_list) \<Rightarrow>
                (CY_RSLT_MODULE_MQTT_SUBSCRIBE_FAIL, Some si1, record_call (Call_free SUB_LIST) s0)
            | (True, si1, sub_list) \<Rightarrow>
                let (r1, s1) = cy_rtos_get_mutex env (PROCESS_MUTEX h) s0 in
                if r1 \<noteq> CY_RSLT_SUCCESS then (r1, Some si1, record_call (Call_free SUB_LIST) s1)
                else
                  let (pid, s2) = MQTT_GetPacketId env h s1;
                      s3 = update_object h (\<lambda>obj. obj\<lparr>sent_packet_id := pid\<rparr>) s2;
                      (result, si2, s4) = subscribe_retry_loop cfg env h sub_list sub_count 0 si1 s3 in
                  if result \<noteq> CY_RSLT_SUCCESS
                  then (result, Some si2,
                        record_call (Call_free SUB_LIST) (snd (cy_rtos_set_mutex env (PROCESS_MUTEX h) s4)))
                  else
                    let (r5, s5) = cy_rtos_set_mutex env (PROCESS_MUTEX h) s4 in
                    if r5 \<noteq> CY_RSLT_SUCCESS then (r5, Some si2, record_call (Call_free SUB_LIST) s5)
                    else (CY_RSLT_SUCCESS, Some si2, record_call (Call_free SUB_LIST) s5)))"

subsection \<open>Unsubscribe\<close>

text \<open>The loop of lines 1812 to 1834 that fills \<^verbatim>\<open>unsub_list\<close>.\<close>

function unsubscribe_build_list ::
  "nat \<Rightarrow> nat \<Rightarrow> (nat \<Rightarrow> cy_mqtt_subscribe_info_t) \<Rightarrow> MQTTSubscribeInfo_t list \<Rightarrow>
   bool \<times> MQTTSubscribeInfo_t list" where
  "unsubscribe_build_list unsub_count index unsub_info unsub_list =
     (if index < unsub_count then
        (if sub_qos (unsub_info index) = CY_MQTT_QOS0 \<or> sub_qos (unsub_info index) = CY_MQTT_QOS1 \<or>
            sub_qos (unsub_info index) = CY_MQTT_QOS2
         then unsubscribe_build_list unsub_count (Suc index) unsub_info
                (unsub_list @ [\<lparr>filter_qos = codec_qos (sub_qos (unsub_info index)),
                                pTopicFilter = sub_topic (unsub_info index),
                                topicFilterLength = sub_topic_len (unsub_info index)\<rparr>])
         else (False, unsub_list))
      else (True, unsub_list))"
  by pat_completeness auto
termination
  by (relation "measure (\<lambda>(unsub_count, index, unsub_info, unsub_list). unsub_count - index)") auto

declare unsubscribe_build_list.simps [simp del]

text \<open>The inner \<^verbatim>\<open>do\<close> loop of \<^verbatim>\<open>cy_mqtt_unsubscribe\<close>, lines 1866 to 1883.\<close>

function unsubscribe_wait_ack ::
  "mqtt_config \<Rightarrow> mqtt_env \<Rightarrow> cy_mqtt_t \<Rightarrow> uint32_t \<Rightarrow> cy_rslt_t \<Rightarrow> mqtt_state \<Rightarrow>
   cy_rslt_t \<times> MQTTStatus_t \<times> mqtt_state" where
  "unsubscribe_wait_ack cfg env h timeout result s =
     (let r = MQTT_ProcessLoop cfg env h s in
      if fst r \<noteq> MQTTSuccess then (CY_RSLT_MODULE_MQTT_UNSUBSCRIBE_FAIL, fst r, snd r)
      else if unsub_ack_received (memory (snd r) h) = True then (CY_RSLT_SUCCESS, fst r, snd r)
      else if timeout - 1 > 0 then unsubscribe_wait_ack cfg env h (timeout - 1) result (snd r)
      else (result, fst r, snd r))"
  by pat_completeness auto
termination
proof (relation "measure (\<lambda>(cfg, env, h, timeout, result, s). unat (timeout - 1))", goal_cases)
  case 1
  show ?case by simp
next
  case (2 cfg env h timeout result s r)
  then have ne: "timeout - 1 \<noteq> 0" by (simp add: word_greater_zero_iff)
  have "unat (timeout - 1 - 1) = unat (timeout - 1) - 1"
    using ne by (rule unat_minus_one)
  moreover have "0 < unat (timeout - 1)"
    using ne unat_gt_0 by blast
  ultimately have "unat (timeout - 1 - 1) < unat (timeout - 1)"
    by arith
  then show ?case by simp
qed

declare unsubscribe_wait_ack.simps [simp del]

text \<open>The unsubscribe retry loop, lines 1848 to 1893.\<close>

function unsubscribe_retry_loop ::
  "mqtt_config \<Rightarrow> mqtt_env \<Rightarrow> cy_mqtt_t \<Rightarrow> MQTTSubscribeInfo_t list \<Rightarrow> nat \<Rightarrow> cy_rslt_t \<Rightarrow>
   mqtt_state \<Rightarrow> cy_rslt_t \<times> mqtt_state" where
  "unsubscribe_retry_loop cfg env h unsub_list retry result s =
     (let s1 = update_object h (\<lambda>obj. obj\<lparr>unsub_ack_received := False\<rparr>) s;
          sent = codec_call env (Call_MQTT_Unsubscribe h unsub_list (sent_packet_id (memory s1 h))) s1;
          x = (if fst sent \<noteq> MQTTSuccess
               then (CY_RSLT_MODULE_MQTT_UNSUBSCRIBE_FAIL, fst sent, snd sent)
               else
                 let w = unsubscribe_wait_ack cfg env h (CY_MQTT_ACK_RECEIVE_TIMEOUT_MS cfg)
                           result (snd sent)
                 in if unsub_ack_received (memory (snd (snd w)) h) = False
                    then (CY_RSLT_MODULE_MQTT_UNSUBSCRIBE_FAIL, MQTTRecvFailed, snd (snd w))
                    else w)
      in if fst (snd x) \<noteq> MQTTSuccess \<and> Suc retry < CY_MQTT_MAX_RETRY_VALUE cfg
         then unsubscribe_retry_loop cfg env h unsub_list (Suc retry) (fst x) (snd (snd x))
         else (fst x, snd (snd x)))"
  by pat_completeness auto
termination
  by (relation "measure (\<lambda>(cfg, env, h, l, retry, r, s). CY_MQTT_MAX_RETRY_VALUE cfg - retry)") auto

declare unsubscribe_retry_loop.simps [simp del]

text \<open>\<^verbatim>\<open>cy_mqtt_unsubscribe\<close>, lines 1770 to 1923.\<close>

definition cy_mqtt_unsubscribe ::
  "mqtt_config \<Rightarrow> mqtt_env \<Rightarrow> cy_mqtt_t \<Rightarrow> (nat \<Rightarrow> cy_mqtt_subscribe_info_t) option \<Rightarrow> uint8_t \<Rightarrow>
   mqtt_state \<Rightarrow> cy_rslt_t \<times> mqtt_state" where
  "cy_mqtt_unsubscribe cfg env h unsub_info unsub_count s =
     (case unsub_info of
        None \<Rightarrow> (CY_RSLT_MODULE_MQTT_BADARG, s)
      | Some ui \<Rightarrow>
        if h = NULL \<or> unat unsub_count < 1 then (CY_RSLT_MODULE_MQTT_BADARG, s)
        else if \<not> mqtt_obj_initialized (memory s h) then (CY_RSLT_MODULE_MQTT_OBJ_NOT_INITIALIZED, s)
        else if \<not> mqtt_session_established (memory s h) then (CY_RSLT_MODULE_MQTT_NOT_CONNECTED, s)
        else if unat unsub_count > CY_MQTT_MAX_OUTGOING_SUBSCRIBES cfg
        then (CY_RSLT_MODULE_MQTT_UNSUBSCRIBE_FAIL, s)
        else
          let t0 = now s; s0 = record_call (Call_malloc SUB_LIST) s in
          if \<not> malloc_succeeds env t0 then (CY_RSLT_MODULE_MQTT_NOMEM, s0)
          else
            (case unsubscribe_build_list (unat unsub_count) 0 ui [] of
              (False, unsub_list) \<Rightarrow>
                (CY_RSLT_MODULE_MQTT_UNSUBSCRIBE_FAIL, record_call (Call_free SUB_LIST) s0)
            | (True, unsub_list) \<Rightarrow>
                let (r1, s1) = cy_rtos_get_mutex env (PROCESS_MUTEX h) s0 in
                if r1 \<noteq> CY_RSLT_SUCCESS then (r1, record_call (Call_free SUB_LIST) s1)
                else
                  let (pid, s2) = MQTT_GetPacketId env h s1;
                      s3 = update_object h (\<lambda>obj. obj\<lparr>sent_packet_id := pid\<rparr>) s2;
                      (result, s4) = unsubscribe_retry_loop cfg env h unsub_list 0 r1 s3 in
                  if result \<noteq> CY_RSLT_SUCCESS
                  then (result,
                        record_call (Call_free SUB_LIST) (snd (cy_rtos_set_mutex env (PROCESS_MUTEX h) s4)))
                  else
                    let (r5, s5) = cy_rtos_set_mutex env (PROCESS_MUTEX h) s4 in
                    if r5 \<noteq> CY_RSLT_SUCCESS then (r5, record_call (Call_free SUB_LIST) s5)
                    else (CY_RSLT_SUCCESS, record_call (Call_free SUB_LIST) s5)))"

section \<open>The receive function of the transport adapter\<close>

text \<open>
  One call of \<^verbatim>\<open>cy_awsport_network_receive\<close> with the two readings of
  \<^verbatim>\<open>Clock_GetTimeMs\<close> around it. \<^verbatim>\<open>bytes_received\<close> is an \<^verbatim>\<open>int32_t\<close>: a 32-bit word
  read in two's complement.
\<close>

record receive_call =
  entryTimeMs :: size_t
  bytes_received :: "32 word"
  exitTimeMs :: size_t

text \<open>
  The \<^verbatim>\<open>do\<close> loop of \<^verbatim>\<open>mqtt_awsport_network_receive\<close>, lines 662 to 690, over the calls
  that the socket layer answers. \<open>None\<close> says that the loop asks for one more call than
  the list holds. The comparison \<^verbatim>\<open>total_received < bytes_recv\<close> is between an
  \<^verbatim>\<open>int32_t\<close> and a \<^verbatim>\<open>size_t\<close> and so is unsigned; the subtraction
  \<^verbatim>\<open>remainingTimeMs - elapsedTimeMs\<close> is a subtraction of \<^verbatim>\<open>size_t\<close> values.
\<close>

fun receive_loop ::
  "mqtt_config \<Rightarrow> size_t \<Rightarrow> receive_call list \<Rightarrow> 32 word \<Rightarrow> size_t \<Rightarrow> 32 word option" where
  "receive_loop cfg bytes_recv [] total_received remainingTimeMs = None"
| "receive_loop cfg bytes_recv (c # cs) total_received remainingTimeMs =
     (let elapsedTimeMs = exitTimeMs c - entryTimeMs c in
      if sint (bytes_received c) < 0 then Some (bytes_received c)
      else if bytes_received c = 0 then
        (if total_received = 0 then Some total_received
         else
           let remaining = remainingTimeMs - elapsedTimeMs in
           if total_received < bytes_recv \<and> remaining > 0
           then receive_loop cfg bytes_recv cs total_received remaining
           else Some total_received)
      else
        let total = total_received + bytes_received c;
            remaining = CY_MQTT_MESSAGE_RECEIVE_TIMEOUT_MS cfg - 0 in
        if total < bytes_recv \<and> remaining > 0
        then receive_loop cfg bytes_recv cs total remaining
        else Some total)"

text \<open>\<^verbatim>\<open>mqtt_awsport_network_receive\<close>, lines 654 to 693.\<close>

definition mqtt_awsport_network_receive ::
  "mqtt_config \<Rightarrow> size_t \<Rightarrow> receive_call list \<Rightarrow> 32 word option" where
  "mqtt_awsport_network_receive cfg bytes_recv cs =
     receive_loop cfg bytes_recv cs 0 (CY_MQTT_MESSAGE_RECEIVE_TIMEOUT_MS cfg)"

section \<open>The invariant on the two connection flags\<close>

text \<open>\<^verbatim>\<open>mqtt_session_established\<close> implies \<^verbatim>\<open>mqtt_conn_status\<close>, for one client object.\<close>

definition session_implies_conn :: "cy_mqtt_object_t \<Rightarrow> bool" where
  "session_implies_conn obj = (mqtt_session_established obj \<longrightarrow> mqtt_conn_status obj)"

text \<open>A step from \<open>s\<close> to \<open>s'\<close> that keeps \<^verbatim>\<open>mqtt_conn_status\<close> of every object and sets no
  \<^verbatim>\<open>mqtt_session_established\<close>.\<close>

definition only_drops_sessions :: "mqtt_state \<Rightarrow> mqtt_state \<Rightarrow> bool" where
  "only_drops_sessions s s' =
     (\<forall>a. mqtt_conn_status (memory s' a) = mqtt_conn_status (memory s a) \<and>
          (mqtt_session_established (memory s' a) \<longrightarrow> mqtt_session_established (memory s a)))"

section \<open>Concrete inputs\<close>

text \<open>A configuration with two handles, two publish slots and two subscription slots, an
  environment in which every call succeeds and nothing arrives, and a library state with
  one client at address 1.\<close>

definition small_config :: mqtt_config where
  "small_config =
     \<lparr>CY_MQTT_MAX_HANDLE = 2, CY_MQTT_MAX_OUTGOING_PUBLISHES = 2,
      CY_MQTT_MAX_OUTGOING_SUBSCRIBES = 2, CY_MQTT_MAX_RETRY_VALUE = 3,
      CY_MQTT_ACK_RECEIVE_TIMEOUT_MS = 3, CY_MQTT_MESSAGE_RECEIVE_TIMEOUT_MS = 500,
      MAX_RETRY_ATTEMPTS = 2\<rparr>"

definition quiet_env :: mqtt_env where
  "quiet_env =
     \<lparr>rtos_result = (\<lambda>t. CY_RSLT_SUCCESS), awsport_result = (\<lambda>t. CY_RSLT_SUCCESS),
      mqtt_status = (\<lambda>t. MQTTSuccess), session_present = (\<lambda>t. Some False),
      next_packet_id = (\<lambda>t. 1), incoming = (\<lambda>t. []), publish_to_resend = (\<lambda>t. []),
      suback_status_codes = (\<lambda>p. (MQTTBadParameter, [], 0)), malloc_succeeds = (\<lambda>t. True),
      dequeued_handle = (\<lambda>t. 1)\<rparr>"

definition zero_object :: cy_mqtt_object_t where
  "zero_object =
     \<lparr>mqtt_obj_initialized = False, mqtt_secure_mode = False, mqtt_session_established = False,
      broker_session_present = False, mqtt_conn_status = False, mqtt_obj_index = 0,
      recv_thread = False, mqtt_event_cb = 0, sub_ack_status = [0, 0],
      num_of_subs_in_req = 0, unsub_ack_received = False,
      pub_ack_status = \<lparr>ack_packetid = 0, puback_status = False\<rparr>, sent_packet_id = 0,
      outgoing_pub_packets = [zero_pubpack, zero_pubpack],
      process_mutex = MUTEX_NULL, user_data = 0\<rparr>"

text \<open>A client as \<^verbatim>\<open>cy_mqtt_create\<close> leaves it, and the same client after a successful
  \<^verbatim>\<open>cy_mqtt_connect\<close>.\<close>

definition idle_client :: cy_mqtt_object_t where
  "idle_client = zero_object\<lparr>mqtt_obj_initialized := True, mqtt_event_cb := 7,
                             process_mutex := MUTEX_UNLOCKED\<rparr>"

definition connected_client :: cy_mqtt_object_t where
  "connected_client = idle_client\<lparr>mqtt_session_established := True, mqtt_conn_status := True,
                                  recv_thread := True\<rparr>"

definition library_with :: "cy_mqtt_object_t \<Rightarrow> mqtt_state" where
  "library_with obj =
     \<lparr>mqtt_handle_database =
        [\<lparr>mqtt_handle = 1, mqtt_context = MQTT_CONTEXT_OF 1\<rparr>,
         \<lparr>mqtt_handle = NULL, mqtt_context = NULL_CONTEXT\<rparr>],
      mqtt_handle_count = 1, mqtt_db_mutex = MUTEX_UNLOCKED, mqtt_lib_init_status = True,
      mqtt_db_mutex_init_status = True, mqtt_disconnect_event_thread = True,
      mqtt_disconnect_event_queue = True,
      memory = (\<lambda>a. zero_object)(1 := obj), allocated = {1}, calls = []\<rparr>"

text \<open>A client whose session was dropped by a disconnect event: the session flag is clear,
  the connection flag is still set.\<close>

definition dropped_client :: cy_mqtt_object_t where
  "dropped_client = connected_client\<lparr>mqtt_session_established := False\<rparr>"

text \<open>A connected client with two QoS 1 publishes that wait for their PUBACK.\<close>

definition unacked_client :: cy_mqtt_object_t where
  "unacked_client =
     connected_client\<lparr>outgoing_pub_packets :=
        [\<lparr>packetid = 1, pubinfo = zero_pubinfo\<lparr>qos := MQTTQoS1\<rparr>\<rparr>,
         \<lparr>packetid = 2, pubinfo = zero_pubinfo\<lparr>qos := MQTTQoS1\<rparr>\<rparr>]\<rparr>"


text \<open>An environment in which the second RTOS call fails.\<close>

definition second_rtos_call_fails_env :: mqtt_env where
  "second_rtos_call_fails_env =
     quiet_env\<lparr>rtos_result := (\<lambda>t. if t = 1 then CY_RSLT_PLATFORM_ERROR 1 else CY_RSLT_SUCCESS)\<rparr>"

text \<open>An environment in which the third RTOS call fails.\<close>

definition third_rtos_call_fails_env :: mqtt_env where
  "third_rtos_call_fails_env =
     quiet_env\<lparr>rtos_result := (\<lambda>t. if t = 2 then CY_RSLT_PLATFORM_ERROR 2 else CY_RSLT_SUCCESS)\<rparr>"

definition one_topic :: "nat \<Rightarrow> cy_mqtt_subscribe_info_t" where
  "one_topic = (\<lambda>i. \<lparr>sub_topic = ''a/b'', sub_topic_len = 3, sub_qos = CY_MQTT_QOS1,
                     allocated_qos = CY_MQTT_QOS0\<rparr>)"

definition hello_message :: cy_mqtt_publish_info_t where
  "hello_message =
     \<lparr>msg_qos = CY_MQTT_QOS1, topic = ''a/b'', topic_len = 3, payload = ''hi'', payload_len = 2,
      msg_retain = False, msg_dup = False\<rparr>"

text \<open>A PUBACK packet, the deserialized information for an acknowledgement, and a client
  that waits for the acknowledgement of packet id 1.\<close>

definition puback_packet :: MQTTPacketInfo_t where
  "puback_packet = \<lparr>packet_type = MQTT_PACKET_TYPE_PUBACK, pRemainingData = [0, 1]\<rparr>"

definition ack_info :: "uint16_t \<Rightarrow> MQTTStatus_t \<Rightarrow> MQTTDeserializedInfo_t" where
  "ack_info pid st = \<lparr>packetIdentifier = pid, pPublishInfo = None, deserializationResult = st\<rparr>"

definition awaiting_ack_client :: cy_mqtt_object_t where
  "awaiting_ack_client = unacked_client\<lparr>pub_ack_status := \<lparr>ack_packetid = 1, puback_status = False\<rparr>\<rparr>"

text \<open>A SUBACK packet for packet id 5, an environment in which the codec reads the two
  codes 1 and 0x80 from it, and a client that waits for the SUBACK of \<open>n\<close> topics.\<close>

definition suback_packet :: MQTTPacketInfo_t where
  "suback_packet = \<lparr>packet_type = MQTT_PACKET_TYPE_SUBACK, pRemainingData = [0, 5, 1, 0x80]\<rparr>"

definition suback_env :: mqtt_env where
  "suback_env = quiet_env\<lparr>suback_status_codes := (\<lambda>p. (MQTTSuccess, [1, 0x80], 2))\<rparr>"

definition subscribing_client :: "uint8_t \<Rightarrow> cy_mqtt_object_t" where
  "subscribing_client n =
     connected_client\<lparr>num_of_subs_in_req := n, sent_packet_id := 5, sub_ack_status := [0x80, 0x80]\<rparr>"

text \<open>A connect request with a clean session and no will message, the codec's view of it,
  and the library state once the socket of client 1 is connected.\<close>

definition plain_connect_info :: cy_mqtt_connect_info_t where
  "plain_connect_info =
     \<lparr>client_id = ''c1'', username = [], password = [], clean_session = True,
      keep_alive_sec = 60, will_info = None\<rparr>"

definition plain_connect_details :: MQTTConnectInfo_t where
  "plain_connect_details =
     \<lparr>cleanSession = True, keepAliveSeconds = 60, pClientIdentifier = ''c1'', pUserName = [],
      pPassword = []\<rparr>"

definition network_up :: mqtt_state where
  "network_up =
     (library_with idle_client)
       \<lparr>calls := [Call_RetryUtils_ParamsReset, Call_cy_awsport_network_create 1,
                  Call_cy_awsport_network_connect 1]\<rparr>"

section \<open>Properties\<close>

lemmas model_defs =
  cy_rtos_get_mutex_def cy_rtos_set_mutex_def cy_rtos_deinit_mutex_def rtos_call_def
  awsport_call_def codec_call_def now_def record_call_def set_mutex_state_def update_object_def

lemmas input_defs =
  library_with_def idle_client_def connected_client_def dropped_client_def zero_object_def
  quiet_env_def small_config_def

subsection \<open>Teardown of the library while clients exist\<close>

text \<open>
  C1 (as amended). A call of \<^verbatim>\<open>cy_mqtt_deinit\<close> while \<^verbatim>\<open>mqtt_handle_count\<close> is not zero
  tears nothing down: the state, with the trace of outside calls, is returned as it was.
  The result is \<^verbatim>\<open>CY_RSLT_SUCCESS\<close> when the library is initialized;
  \<^verbatim>\<open>CY_RSLT_MODULE_MQTT_DEINIT_FAIL\<close> is returned only when it is not.
\<close>

theorem deinit_with_clients_tears_nothing_down:
  assumes "mqtt_handle_count s \<noteq> 0"
  shows "cy_mqtt_deinit env s =
           (if mqtt_lib_init_status s \<and> mqtt_db_mutex_init_status s
            then CY_RSLT_SUCCESS else CY_RSLT_MODULE_MQTT_DEINIT_FAIL, s)"
  using assms by (simp add: cy_mqtt_deinit_def)

theorem deinit_with_clients_witness:
  "mqtt_handle_count (library_with idle_client) \<noteq> 0 \<and>
   cy_mqtt_deinit quiet_env (library_with idle_client) = (CY_RSLT_SUCCESS, library_with idle_client)"
proof -
  have h: "mqtt_handle_count (library_with idle_client) \<noteq> 0"
    by (simp add: library_with_def)
  show ?thesis
    using h deinit_with_clients_tears_nothing_down [OF h, of quiet_env]
    by (simp add: library_with_def)
qed

text \<open>The claim as stated fails: with one client alive in an initialized library the call
  does not fail with \<^verbatim>\<open>CY_RSLT_MODULE_MQTT_DEINIT_FAIL\<close>, it returns success.\<close>

theorem deinit_with_clients_counterexample:
  "mqtt_handle_count (library_with connected_client) = 1 \<and>
   fst (cy_mqtt_deinit quiet_env (library_with connected_client)) = CY_RSLT_SUCCESS \<and>
   fst (cy_mqtt_deinit quiet_env (library_with connected_client)) \<noteq> CY_RSLT_MODULE_MQTT_DEINIT_FAIL"
  by (simp add: cy_mqtt_deinit_def library_with_def)

subsection \<open>Deleting a client\<close>

text \<open>
  C10 (as amended). For a handle whose object is initialized, \<^verbatim>\<open>cy_mqtt_delete\<close> destroys
  the mutex of the client and takes the registry mutex. When the registry mutex is taken
  and given back without error, it clears the registry slot of the object, decrements the
  handle count, zeroes the object, frees it and returns success. When the registry mutex
  cannot be taken, it returns that error: the registry slot, the handle count and the
  object are as they were, and nothing is freed. When the registry mutex cannot be given
  back, it returns that error: the slot is cleared and the count decremented, but the
  object is neither zeroed nor freed. Neither \<^verbatim>\<open>mqtt_conn_status\<close> nor
  \<^verbatim>\<open>mqtt_session_established\<close> is read: the statement holds for every value of both.
\<close>

theorem delete_ignores_connection_state:
  assumes "h \<noteq> NULL" and "mqtt_obj_initialized (memory s h)"
  shows "(rtos_result env (Suc (now s)) = CY_RSLT_SUCCESS \<and>
          rtos_result env (Suc (Suc (now s))) = CY_RSLT_SUCCESS \<longrightarrow>
            fst (cy_mqtt_delete env h s) = CY_RSLT_SUCCESS \<and>
            mqtt_handle_database (snd (cy_mqtt_delete env h s)) =
              (mqtt_handle_database s)[unat (mqtt_obj_index (memory s h)) :=
                 \<lparr>mqtt_handle = NULL, mqtt_context = NULL_CONTEXT\<rparr>] \<and>
            mqtt_handle_count (snd (cy_mqtt_delete env h s)) = mqtt_handle_count s - 1 \<and>
            memory (snd (cy_mqtt_delete env h s)) h = memset_object (memory s h) \<and>
            h \<notin> allocated (snd (cy_mqtt_delete env h s)) \<and>
            calls (snd (cy_mqtt_delete env h s)) =
              calls s @ [Call_cy_rtos_deinit_mutex (PROCESS_MUTEX h), Call_cy_rtos_get_mutex MQTT_DB_MUTEX,
                         Call_cy_rtos_set_mutex MQTT_DB_MUTEX, Call_free (MQTT_OBJECT h)]) \<and>
         (rtos_result env (Suc (now s)) \<noteq> CY_RSLT_SUCCESS \<longrightarrow>
            fst (cy_mqtt_delete env h s) = rtos_result env (Suc (now s)) \<and>
            mqtt_handle_database (snd (cy_mqtt_delete env h s)) = mqtt_handle_database s \<and>
            mqtt_handle_count (snd (cy_mqtt_delete env h s)) = mqtt_handle_count s \<and>
            memory (snd (cy_mqtt_delete env h s)) h =
              (memory s h)\<lparr>process_mutex :=
                 if rtos_result env (now s) = CY_RSLT_SUCCESS then MUTEX_NULL
                 else process_mutex (memory s h)\<rparr> \<and>
            allocated (snd (cy_mqtt_delete env h s)) = allocated s \<and>
            calls (snd (cy_mqtt_delete env h s)) =
              calls s @ [Call_cy_rtos_deinit_mutex (PROCESS_MUTEX h), Call_cy_rtos_get_mutex MQTT_DB_MUTEX]) \<and>
         (rtos_result env (Suc (now s)) = CY_RSLT_SUCCESS \<and>
          rtos_result env (Suc (Suc (now s))) \<noteq> CY_RSLT_SUCCESS \<longrightarrow>
            fst (cy_mqtt_delete env h s) = rtos_result env (Suc (Suc (now s))) \<and>
            mqtt_handle_database (snd (cy_mqtt_delete env h s)) =
              (mqtt_handle_database s)[unat (mqtt_obj_index (memory s h)) :=
                 \<lparr>mqtt_handle = NULL, mqtt_context = NULL_CONTEXT\<rparr>] \<and>
            mqtt_handle_count (snd (cy_mqtt_delete env h s)) = mqtt_handle_count s - 1 \<and>
            memory (snd (cy_mqtt_delete env h s)) h =
              (memory s h)\<lparr>process_mutex :=
                 if rtos_result env (now s) = CY_RSLT_SUCCESS then MUTEX_NULL
                 else process_mutex (memory s h)\<rparr> \<and>
            allocated (snd (cy_mqtt_delete env h s)) = allocated s \<and>
            calls (snd (cy_mqtt_delete env h s)) =
              calls s @ [Call_cy_rtos_deinit_mutex (PROCESS_MUTEX h), Call_cy_rtos_get_mutex MQTT_DB_MUTEX,
                         Call_cy_rtos_set_mutex MQTT_DB_MUTEX])"
  using assms
  by (simp add: cy_mqtt_delete_def model_defs free_object_def memset_object_def Let_def)

theorem delete_ignores_connection_state_witness:
  "mqtt_conn_status (memory (library_with connected_client) 1) \<and>
   mqtt_session_established (memory (library_with connected_client) 1) \<and>
   fst (cy_mqtt_delete quiet_env 1 (library_with connected_client)) = CY_RSLT_SUCCESS \<and>
   mqtt_handle_count (snd (cy_mqtt_delete quiet_env 1 (library_with connected_client))) = 0 \<and>
   memory (snd (cy_mqtt_delete quiet_env 1 (library_with connected_client))) 1 = zero_object \<and>
   1 \<notin> allocated (snd (cy_mqtt_delete quiet_env 1 (library_with connected_client))) \<and>
   fst (cy_mqtt_delete second_rtos_call_fails_env 1 (library_with connected_client)) =
     CY_RSLT_PLATFORM_ERROR 1 \<and>
   calls (snd (cy_mqtt_delete second_rtos_call_fails_env 1 (library_with connected_client))) =
     [Call_cy_rtos_deinit_mutex (PROCESS_MUTEX 1), Call_cy_rtos_get_mutex MQTT_DB_MUTEX] \<and>
   fst (cy_mqtt_delete third_rtos_call_fails_env 1 (library_with connected_client)) =
     CY_RSLT_PLATFORM_ERROR 2 \<and>
   mqtt_handle_count (snd (cy_mqtt_delete third_rtos_call_fails_env 1 (library_with connected_client))) = 0 \<and>
   allocated (snd (cy_mqtt_delete third_rtos_call_fails_env 1 (library_with connected_client))) = {1} \<and>
   memory (snd (cy_mqtt_delete third_rtos_call_fails_env 1 (library_with connected_client))) 1 =
     connected_client\<lparr>process_mutex := MUTEX_NULL\<rparr>"
proof -
  have a: "(1::nat) \<noteq> NULL" by simp
  have b: "mqtt_obj_initialized (memory (library_with connected_client) 1)"
    by (simp add: input_defs)
  show ?thesis
    using delete_ignores_connection_state [OF a b, of quiet_env]
      delete_ignores_connection_state [OF a b, of second_rtos_call_fails_env]
      delete_ignores_connection_state [OF a b, of third_rtos_call_fails_env]
    by (simp add: input_defs model_defs memset_object_def second_rtos_call_fails_env_def
        third_rtos_call_fails_env_def)
qed

text \<open>The claim as stated fails: when the registry mutex cannot be taken, the call on an
  initialized, connected client returns that error, and the registry slot, the handle
  count and the object stay as they were (only the client's mutex is destroyed).\<close>

theorem delete_counterexample:
  "mqtt_obj_initialized (memory (library_with connected_client) 1) \<and>
   fst (cy_mqtt_delete second_rtos_call_fails_env 1 (library_with connected_client)) =
     CY_RSLT_PLATFORM_ERROR 1 \<and>
   mqtt_handle_count (snd (cy_mqtt_delete second_rtos_call_fails_env 1 (library_with connected_client))) = 1 \<and>
   mqtt_handle_database (snd (cy_mqtt_delete second_rtos_call_fails_env 1 (library_with connected_client))) =
     mqtt_handle_database (library_with connected_client) \<and>
   mqtt_obj_initialized
     (memory (snd (cy_mqtt_delete second_rtos_call_fails_env 1 (library_with connected_client))) 1) \<and>
   1 \<in> allocated (snd (cy_mqtt_delete second_rtos_call_fails_env 1 (library_with connected_client)))"
  by (simp add: cy_mqtt_delete_def second_rtos_call_fails_env_def input_defs model_defs)

subsection \<open>Disconnect and the mutex of the client\<close>

text \<open>
  C4 (the code at the failing input). \<^verbatim>\<open>cy_mqtt_disconnect\<close> on an initialized client that
  is not connected takes the mutex of the client, which was free, returns
  \<^verbatim>\<open>CY_RSLT_MODULE_MQTT_NOT_CONNECTED\<close> and makes no further call: the mutex is still held
  when the function has returned.
\<close>

theorem disconnect_not_connected_keeps_mutex:
  "process_mutex (memory (library_with idle_client) 1) = MUTEX_UNLOCKED \<and>
   fst (cy_mqtt_disconnect quiet_env 1 (library_with idle_client)) = CY_RSLT_MODULE_MQTT_NOT_CONNECTED \<and>
   process_mutex (memory (snd (cy_mqtt_disconnect quiet_env 1 (library_with idle_client))) 1) =
     MUTEX_LOCKED \<and>
   calls (snd (cy_mqtt_disconnect quiet_env 1 (library_with idle_client))) =
     [Call_cy_rtos_get_mutex (PROCESS_MUTEX 1)]"
  by (simp add: cy_mqtt_disconnect_def input_defs model_defs)

subsection \<open>Publish resend\<close>


subsection \<open>The receive function of the transport adapter\<close>

text \<open>
  C6 (the code at the failing input). Two bytes are requested with a budget of 500 ms. The
  first read returns one byte; the second returns none and takes 600 ms, which is more
  than the budget. \<^verbatim>\<open>remainingTimeMs - elapsedTimeMs\<close> wraps around to a large positive
  \<^verbatim>\<open>size_t\<close>, so the loop does not end there: with these two reads alone the function
  has not returned, and a third read that brings the second byte makes it return 2.
\<close>

theorem receive_goes_on_after_budget:
  "CY_MQTT_MESSAGE_RECEIVE_TIMEOUT_MS small_config = 500 \<and>
   mqtt_awsport_network_receive small_config 2
     [\<lparr>entryTimeMs = 0, bytes_received = 1, exitTimeMs = 0\<rparr>,
      \<lparr>entryTimeMs = 0, bytes_received = 0, exitTimeMs = 600\<rparr>] = None \<and>
   mqtt_awsport_network_receive small_config 2
     [\<lparr>entryTimeMs = 0, bytes_received = 1, exitTimeMs = 0\<rparr>,
      \<lparr>entryTimeMs = 0, bytes_received = 0, exitTimeMs = 600\<rparr>,
      \<lparr>entryTimeMs = 600, bytes_received = 1, exitTimeMs = 600\<rparr>] = Some 2"
  by (simp add: mqtt_awsport_network_receive_def small_config_def word_greater_zero_iff)

subsection \<open>Requests on a client without a session\<close>

text \<open>
  C7 (as amended). On a client whose session is not established, \<^verbatim>\<open>cy_mqtt_publish\<close>,
  \<^verbatim>\<open>cy_mqtt_subscribe\<close> and \<^verbatim>\<open>cy_mqtt_unsubscribe\<close> return with the state as it was:
  no field of the client has changed and the trace of outside calls has not grown, so no
  codec call was made. The result is \<^verbatim>\<open>CY_RSLT_MODULE_MQTT_BADARG\<close> when the handle, the
  message or the array is \<^verbatim>\<open>NULL\<close>, or when the count of subscribe or unsubscribe is below
  1, or when the count of subscribe is above \<^verbatim>\<open>CY_MQTT_MAX_OUTGOING_SUBSCRIBES\<close>; otherwise
  it is \<^verbatim>\<open>CY_RSLT_MODULE_MQTT_OBJ_NOT_INITIALIZED\<close> when the object is not initialized;
  otherwise it is \<^verbatim>\<open>CY_RSLT_MODULE_MQTT_NOT_CONNECTED\<close>.
\<close>

theorem requests_without_session_are_refused:
  assumes "\<not> mqtt_session_established (memory s h)"
  shows "cy_mqtt_publish cfg env h pubmsg s =
           (if h = NULL \<or> pubmsg = None then CY_RSLT_MODULE_MQTT_BADARG
            else if \<not> mqtt_obj_initialized (memory s h) then CY_RSLT_MODULE_MQTT_OBJ_NOT_INITIALIZED
            else CY_RSLT_MODULE_MQTT_NOT_CONNECTED, s) \<and>
         cy_mqtt_subscribe cfg env h sub_info sub_count s =
           (if h = NULL \<or> sub_info = None \<or> unat sub_count < 1 \<or>
               unat sub_count > CY_MQTT_MAX_OUTGOING_SUBSCRIBES cfg
            then CY_RSLT_MODULE_MQTT_BADARG
            else if \<not> mqtt_obj_initialized (memory s h) then CY_RSLT_MODULE_MQTT_OBJ_NOT_INITIALIZED
            else CY_RSLT_MODULE_MQTT_NOT_CONNECTED, sub_info, s) \<and>
         cy_mqtt_unsubscribe cfg env h unsub_info unsub_count s =
           (if h = NULL \<or> unsub_info = None \<or> unat unsub_count < 1 then CY_RSLT_MODULE_MQTT_BADARG
            else if \<not> mqtt_obj_initialized (memory s h) then CY_RSLT_MODULE_MQTT_OBJ_NOT_INITIALIZED
            else CY_RSLT_MODULE_MQTT_NOT_CONNECTED, s)"
  using assms
  by (simp add: cy_mqtt_publish_def cy_mqtt_subscribe_def cy_mqtt_unsubscribe_def
      split: option.splits)

theorem requests_without_session_witness:
  "mqtt_conn_status (memory (library_with dropped_client) 1) \<and>
   cy_mqtt_publish small_config quiet_env 1 (Some hello_message) (library_with dropped_client) =
     (CY_RSLT_MODULE_MQTT_NOT_CONNECTED, library_with dropped_client) \<and>
   cy_mqtt_subscribe small_config quiet_env 1 (Some one_topic) 1 (library_with dropped_client) =
     (CY_RSLT_MODULE_MQTT_NOT_CONNECTED, Some one_topic, library_with dropped_client) \<and>
   cy_mqtt_unsubscribe small_config quiet_env 1 (Some one_topic) 1 (library_with dropped_client) =
     (CY_RSLT_MODULE_MQTT_NOT_CONNECTED, library_with dropped_client)"
proof -
  have b: "mqtt_obj_initialized (memory (library_with dropped_client) (Suc 0))"
    by (simp add: input_defs)
  have c: "\<not> mqtt_session_established (memory (library_with dropped_client) 1)"
    by (simp add: input_defs)
  have e: "unat (1 :: uint8_t) \<le> CY_MQTT_MAX_OUTGOING_SUBSCRIBES small_config"
    by (simp add: small_config_def)
  have f: "mqtt_conn_status (memory (library_with dropped_client) 1)"
    by (simp add: input_defs)
  show ?thesis
    using b e f
      requests_without_session_are_refused [OF c, where cfg = small_config and env = quiet_env
        and pubmsg = "Some hello_message" and sub_info = "Some one_topic" and sub_count = 1
        and unsub_info = "Some one_topic" and unsub_count = 1]
    by simp
qed

text \<open>The claim as stated fails: on a client without a session, a publish without a
  message, a subscribe with three topics where two are the maximum, and an unsubscribe
  with no topic return \<^verbatim>\<open>CY_RSLT_MODULE_MQTT_BADARG\<close>, not
  \<^verbatim>\<open>CY_RSLT_MODULE_MQTT_NOT_CONNECTED\<close>.\<close>

theorem requests_without_session_counterexample:
  "\<not> mqtt_session_established (memory (library_with dropped_client) 1) \<and>
   CY_MQTT_MAX_OUTGOING_SUBSCRIBES small_config = 2 \<and>
   cy_mqtt_publish small_config quiet_env 1 None (library_with dropped_client) =
     (CY_RSLT_MODULE_MQTT_BADARG, library_with dropped_client) \<and>
   cy_mqtt_subscribe small_config quiet_env 1 (Some one_topic) 3 (library_with dropped_client) =
     (CY_RSLT_MODULE_MQTT_BADARG, Some one_topic, library_with dropped_client) \<and>
   cy_mqtt_unsubscribe small_config quiet_env 1 (Some one_topic) 0 (library_with dropped_client) =
     (CY_RSLT_MODULE_MQTT_BADARG, library_with dropped_client)"
  by (simp add: cy_mqtt_publish_def cy_mqtt_subscribe_def cy_mqtt_unsubscribe_def input_defs)

subsection \<open>Subscribe with a topic count out of range\<close>

text \<open>
  C8. A call of \<^verbatim>\<open>cy_mqtt_subscribe\<close> with a count below 1 or above
  \<^verbatim>\<open>CY_MQTT_MAX_OUTGOING_SUBSCRIBES\<close> returns \<^verbatim>\<open>CY_RSLT_MODULE_MQTT_BADARG\<close>, whatever the
  handle, the array and the state of the client are; the state and the caller's array are
  returned as they were, and the trace of outside calls has not grown.
\<close>

theorem subscribe_bad_count_is_badarg:
  assumes "unat sub_count < 1 \<or> unat sub_count > CY_MQTT_MAX_OUTGOING_SUBSCRIBES cfg"
  shows "cy_mqtt_subscribe cfg env h sub_info sub_count s = (CY_RSLT_MODULE_MQTT_BADARG, sub_info, s)"
  using assms by (auto simp add: cy_mqtt_subscribe_def split: option.splits)

theorem subscribe_bad_count_witness:
  "CY_MQTT_MAX_OUTGOING_SUBSCRIBES small_config = 2 \<and>
   cy_mqtt_subscribe small_config quiet_env 1 (Some one_topic) 3 (library_with connected_client) =
     (CY_RSLT_MODULE_MQTT_BADARG, Some one_topic, library_with connected_client) \<and>
   cy_mqtt_subscribe small_config quiet_env 1 (Some one_topic) 0 (library_with connected_client) =
     (CY_RSLT_MODULE_MQTT_BADARG, Some one_topic, library_with connected_client)"
proof -
  have a: "unat (3 :: uint8_t) < 1 \<or> unat (3 :: uint8_t) > CY_MQTT_MAX_OUTGOING_SUBSCRIBES small_config"
    by (simp add: small_config_def)
  have b: "unat (0 :: uint8_t) < 1 \<or> unat (0 :: uint8_t) > CY_MQTT_MAX_OUTGOING_SUBSCRIBES small_config"
    by simp
  show ?thesis
    using subscribe_bad_count_is_badarg [OF a] subscribe_bad_count_is_badarg [OF b]
    by (simp add: small_config_def)
qed

subsection \<open>PUBACK and PUBREC in the event callback\<close>

lemma first_index_None: "first_index P xs k = None \<longleftrightarrow> (\<forall>x\<in>set xs. \<not> P x)"
  by (induction xs arbitrary: k) auto

lemma first_index_ge: "first_index P xs k = Some i \<Longrightarrow> k \<le> i"
proof (induction xs arbitrary: k)
  case Nil
  then show ?case by simp
next
  case (Cons x xs)
  then show ?case by (fastforce split: if_splits)
qed

lemma first_index_update_is_map:
  assumes "pid \<noteq> 0" and "distinct (filter (\<lambda>x. x \<noteq> 0) (map packetid xs))"
    and "first_index (\<lambda>p. packetid p = pid) xs k = Some i"
  shows "i - k < length xs \<and> xs[i - k := z] = map (\<lambda>p. if packetid p = pid then z else p) xs"
  using assms
proof (induction xs arbitrary: k)
  case Nil
  then show ?case by simp
next
  case (Cons x xs)
  show ?case
  proof (cases "packetid x = pid")
    case True
    with Cons.prems have "i = k" by simp
    moreover from True Cons.prems have "\<forall>y\<in>set xs. packetid y \<noteq> pid"
      by (force simp: image_iff)
    then have "map (\<lambda>p. if packetid p = pid then z else p) xs = xs"
      by (simp add: map_idI)
    ultimately show ?thesis using True by simp
  next
    case False
    with Cons.prems have fi: "first_index (\<lambda>p. packetid p = pid) xs (Suc k) = Some i" by simp
    from Cons.prems have d: "distinct (filter (\<lambda>x. x \<noteq> 0) (map packetid xs))"
      by (simp split: if_splits)
    from Cons.IH [OF Cons.prems(1) d fi]
    have ih: "i - Suc k < length xs \<and> xs[i - Suc k := z] = map (\<lambda>p. if packetid p = pid then z else p) xs" .
    from first_index_ge [OF fi] have "i - k = Suc (i - Suc k)" by simp
    with ih False show ?thesis by simp
  qed
qed

lemma cleanup_with_packet_id_is_map:
  assumes "pid \<noteq> 0"
    and "length (outgoing_pub_packets obj) = CY_MQTT_MAX_OUTGOING_PUBLISHES cfg"
    and "distinct (filter (\<lambda>x. x \<noteq> 0) (map packetid (outgoing_pub_packets obj)))"
  shows "snd (mqtt_cleanup_outgoing_publish_with_packet_id cfg obj pid) =
           obj\<lparr>outgoing_pub_packets :=
                 map (\<lambda>p. if packetid p = pid then zero_pubpack else p) (outgoing_pub_packets obj)\<rparr>"
proof (cases "first_index (\<lambda>p. packetid p = pid) (outgoing_pub_packets obj) 0")
  case None
  then have "map (\<lambda>p. if packetid p = pid then zero_pubpack else p) (outgoing_pub_packets obj) =
             outgoing_pub_packets obj"
    by (simp add: first_index_None map_idI)
  with None assms show ?thesis
    by (simp add: mqtt_cleanup_outgoing_publish_with_packet_id_def)
next
  case (Some i)
  from first_index_update_is_map [OF assms(1) assms(3) Some, of zero_pubpack]
  have "i < length (outgoing_pub_packets obj)"
    and "(outgoing_pub_packets obj)[i := zero_pubpack] =
         map (\<lambda>p. if packetid p = pid then zero_pubpack else p) (outgoing_pub_packets obj)"
    by simp_all
  with Some assms show ?thesis
    by (simp add: mqtt_cleanup_outgoing_publish_with_packet_id_def mqtt_cleanup_outgoing_publish_def)
qed

lemmas packet_type_defs =
  MQTT_PACKET_TYPE_PUBLISH_def MQTT_PACKET_TYPE_PUBACK_def MQTT_PACKET_TYPE_PUBREC_def
  MQTT_PACKET_TYPE_PUBREL_def MQTT_PACKET_TYPE_PUBCOMP_def MQTT_PACKET_TYPE_SUBACK_def
  MQTT_PACKET_TYPE_UNSUBACK_def MQTT_PACKET_TYPE_PINGRESP_def MQTT_PACKET_TYPE_DISCONNECT_def

lemma puback_callback:
  assumes "param_mqtt_context \<noteq> NULL_CONTEXT"
    and "mqtt_find_handle (take (CY_MQTT_MAX_HANDLE cfg) (mqtt_handle_database s)) param_mqtt_context = h"
    and "h \<noteq> NULL"
    and "packet_type pi = MQTT_PACKET_TYPE_PUBACK \<or> packet_type pi = MQTT_PACKET_TYPE_PUBREC"
  shows "mqtt_event_callback cfg env param_mqtt_context (Some pi) (Some di) s =
           update_object h (mqtt_puback_received cfg di) s"
  using assms by (auto simp add: mqtt_event_callback_def packet_type_defs)

text \<open>
  C9 (as amended). When \<^verbatim>\<open>mqtt_event_callback\<close> is called for a client of the registry
  with a PUBACK or PUBREC packet, \<^verbatim>\<open>pub_ack_status.puback_status\<close> becomes the truth value
  of "the packet id equals \<^verbatim>\<open>pub_ack_status.packetid\<close>" when the deserialization result
  is \<^verbatim>\<open>MQTTSuccess\<close>, and keeps its value otherwise. Whatever the deserialization result
  is, the slot of \<^verbatim>\<open>outgoing_pub_packets\<close> that holds the (nonzero) packet id is zeroed
  and every other slot is kept; nothing else changes. The array has its declared size
  and its nonzero packet ids are pairwise distinct.
\<close>

theorem puback_dispatch:
  assumes "param_mqtt_context \<noteq> NULL_CONTEXT"
    and "mqtt_find_handle (take (CY_MQTT_MAX_HANDLE cfg) (mqtt_handle_database s)) param_mqtt_context = h"
    and "h \<noteq> NULL"
    and "packet_type pi = MQTT_PACKET_TYPE_PUBACK \<or> packet_type pi = MQTT_PACKET_TYPE_PUBREC"
    and "packetIdentifier di \<noteq> 0"
    and "length (outgoing_pub_packets (memory s h)) = CY_MQTT_MAX_OUTGOING_PUBLISHES cfg"
    and "distinct (filter (\<lambda>x. x \<noteq> 0) (map packetid (outgoing_pub_packets (memory s h))))"
  shows "mqtt_event_callback cfg env param_mqtt_context (Some pi) (Some di) s =
           update_object h
             (\<lambda>obj. obj\<lparr>pub_ack_status := (pub_ack_status obj)
                          \<lparr>puback_status :=
                             (if deserializationResult di = MQTTSuccess
                              then packetIdentifier di = ack_packetid (pub_ack_status obj)
                              else puback_status (pub_ack_status obj))\<rparr>,
                        outgoing_pub_packets :=
                          map (\<lambda>p. if packetid p = packetIdentifier di then zero_pubpack else p)
                            (outgoing_pub_packets obj)\<rparr>) s"
proof -
  let ?obj = "memory s h"
  let ?obj1 = "if deserializationResult di \<noteq> MQTTSuccess then ?obj
               else if packetIdentifier di = ack_packetid (pub_ack_status ?obj)
               then ?obj\<lparr>pub_ack_status := (pub_ack_status ?obj)\<lparr>puback_status := True\<rparr>\<rparr>
               else ?obj\<lparr>pub_ack_status := (pub_ack_status ?obj)\<lparr>puback_status := False\<rparr>\<rparr>"
  have len: "length (outgoing_pub_packets ?obj1) = CY_MQTT_MAX_OUTGOING_PUBLISHES cfg"
    using assms(6) by simp
  have dis: "distinct (filter (\<lambda>x. x \<noteq> 0) (map packetid (outgoing_pub_packets ?obj1)))"
    using assms(7) by simp
  have "mqtt_puback_received cfg di ?obj =
          snd (mqtt_cleanup_outgoing_publish_with_packet_id cfg ?obj1 (packetIdentifier di))"
    by (simp add: mqtt_puback_received_def Let_def)
  also have "\<dots> = ?obj1\<lparr>outgoing_pub_packets :=
                 map (\<lambda>p. if packetid p = packetIdentifier di then zero_pubpack else p)
                   (outgoing_pub_packets ?obj1)\<rparr>"
    by (rule cleanup_with_packet_id_is_map [OF assms(5) len dis])
  finally have "mqtt_puback_received cfg di ?obj =
      ?obj\<lparr>pub_ack_status := (pub_ack_status ?obj)
               \<lparr>puback_status :=
                  (if deserializationResult di = MQTTSuccess
                   then packetIdentifier di = ack_packetid (pub_ack_status ?obj)
                   else puback_status (pub_ack_status ?obj))\<rparr>,
            outgoing_pub_packets :=
              map (\<lambda>p. if packetid p = packetIdentifier di then zero_pubpack else p)
                (outgoing_pub_packets ?obj)\<rparr>"
    by simp
  then show ?thesis
    using puback_callback [OF assms(1-4)] by (simp add: update_object_def)
qed

theorem puback_dispatch_witness:
  "puback_status (pub_ack_status (memory
      (mqtt_event_callback small_config quiet_env (MQTT_CONTEXT_OF 1) (Some puback_packet)
         (Some (ack_info 1 MQTTSuccess)) (library_with awaiting_ack_client)) 1)) \<and>
   outgoing_pub_packets (memory
      (mqtt_event_callback small_config quiet_env (MQTT_CONTEXT_OF 1) (Some puback_packet)
         (Some (ack_info 1 MQTTSuccess)) (library_with awaiting_ack_client)) 1) =
     [zero_pubpack, \<lparr>packetid = 2, pubinfo = zero_pubinfo\<lparr>qos := MQTTQoS1\<rparr>\<rparr>]"
proof -
  let ?s = "library_with awaiting_ack_client"
  have a: "MQTT_CONTEXT_OF 1 \<noteq> NULL_CONTEXT" by simp
  have b: "mqtt_find_handle (take (CY_MQTT_MAX_HANDLE small_config) (mqtt_handle_database ?s))
             (MQTT_CONTEXT_OF 1) = 1"
    by (simp add: input_defs)
  have c: "(1::nat) \<noteq> NULL" by simp
  have d: "packet_type puback_packet = MQTT_PACKET_TYPE_PUBACK \<or>
           packet_type puback_packet = MQTT_PACKET_TYPE_PUBREC"
    by (simp add: puback_packet_def)
  have e: "packetIdentifier (ack_info 1 MQTTSuccess) \<noteq> 0"
    by (simp add: ack_info_def)
  have f: "length (outgoing_pub_packets (memory ?s 1)) = CY_MQTT_MAX_OUTGOING_PUBLISHES small_config"
    by (simp add: input_defs awaiting_ack_client_def unacked_client_def)
  have g: "distinct (filter (\<lambda>x. x \<noteq> 0) (map packetid (outgoing_pub_packets (memory ?s 1))))"
    by (simp add: input_defs awaiting_ack_client_def unacked_client_def)
  show ?thesis
    using puback_dispatch [OF a b c d e f g, of quiet_env]
    by (simp add: update_object_def input_defs awaiting_ack_client_def unacked_client_def ack_info_def)
qed

text \<open>The claim as stated fails: a PUBACK whose id equals \<^verbatim>\<open>pub_ack_status.packetid\<close>, with
  a deserialization result other than success, leaves \<^verbatim>\<open>puback_status\<close> false.\<close>

theorem puback_dispatch_counterexample:
  "packetIdentifier (ack_info 1 MQTTBadResponse) =
     ack_packetid (pub_ack_status (memory (library_with awaiting_ack_client) 1)) \<and>
   \<not> puback_status (pub_ack_status (memory
      (mqtt_event_callback small_config quiet_env (MQTT_CONTEXT_OF 1) (Some puback_packet)
         (Some (ack_info 1 MQTTBadResponse)) (library_with awaiting_ack_client)) 1))"
  by (simp add: mqtt_event_callback_def mqtt_puback_received_def
      mqtt_cleanup_outgoing_publish_with_packet_id_def mqtt_cleanup_outgoing_publish_def
      packet_type_defs puback_packet_def ack_info_def awaiting_ack_client_def unacked_client_def
      update_object_def input_defs)

subsection \<open>SUBACK in the event callback\<close>

lemma copy_codes:
  "n \<le> length xs \<Longrightarrow> n \<le> length ys \<Longrightarrow>
   foldl (\<lambda>st i. st[i := ys ! i]) xs [0 ..< n] = take n ys @ drop n xs"
proof (induction n)
  case 0
  then show ?case by simp
next
  case (Suc n)
  then have "foldl (\<lambda>st i. st[i := ys ! i]) xs [0 ..< Suc n] = (take n ys @ drop n xs)[n := ys ! n]"
    by simp
  also have "\<dots> = take n ys @ (drop n xs)[0 := ys ! n]"
    using Suc.prems by (simp add: list_update_append)
  also have "(drop n xs)[0 := ys ! n] = ys ! n # drop (Suc n) xs"
    using Suc.prems Cons_nth_drop_Suc [of n xs, symmetric] by simp
  also have "take n ys @ ys ! n # drop (Suc n) xs = take (Suc n) ys @ drop (Suc n) xs"
    using Suc.prems by (simp add: take_Suc_conv_app_nth)
  finally show ?case .
qed

text \<open>
  C5. When \<^verbatim>\<open>mqtt_event_callback\<close> is called for a client of the registry with a SUBACK
  whose packet id is \<^verbatim>\<open>sent_packet_id\<close>, the client is updated by
  \<^verbatim>\<open>mqtt_update_suback_status\<close>. If the count \<open>n\<close> that the codec reports differs from
  \<^verbatim>\<open>num_of_subs_in_req\<close>, that function returns \<^verbatim>\<open>CY_RSLT_MODULE_MQTT_ERROR\<close> and only
  sets \<^verbatim>\<open>num_of_subs_in_req\<close> to 0. Otherwise the first \<open>n\<close> entries of
  \<^verbatim>\<open>sub_ack_status\<close> become the \<open>n\<close> codes, the other entries are kept and
  \<^verbatim>\<open>num_of_subs_in_req\<close> is set to 0. The codec is taken to report as many codes as its
  count says when it succeeds and to leave the count at its initial 0 when it fails, and
  \<^verbatim>\<open>num_of_subs_in_req\<close> is within the size of \<^verbatim>\<open>sub_ack_status\<close>.
\<close>

theorem suback_dispatch:
  assumes "param_mqtt_context \<noteq> NULL_CONTEXT"
    and "mqtt_find_handle (take (CY_MQTT_MAX_HANDLE cfg) (mqtt_handle_database s)) param_mqtt_context = h"
    and "h \<noteq> NULL"
    and "packet_type pi = MQTT_PACKET_TYPE_SUBACK"
    and "packetIdentifier di = sent_packet_id (memory s h)"
    and "suback_status_codes env pi = (st, codes, n)"
    and "st = MQTTSuccess \<longrightarrow> length codes = n"
    and "st \<noteq> MQTTSuccess \<longrightarrow> n = 0"
    and "unat (num_of_subs_in_req (memory s h)) \<le> length (sub_ack_status (memory s h))"
  shows "mqtt_event_callback cfg env param_mqtt_context (Some pi) (Some di) s =
           update_object h (\<lambda>obj. snd (mqtt_update_suback_status env obj pi)) s \<and>
         (n \<noteq> unat (num_of_subs_in_req (memory s h)) \<longrightarrow>
            mqtt_update_suback_status env (memory s h) pi =
              (CY_RSLT_MODULE_MQTT_ERROR, (memory s h)\<lparr>num_of_subs_in_req := 0\<rparr>)) \<and>
         (n = unat (num_of_subs_in_req (memory s h)) \<longrightarrow>
            snd (mqtt_update_suback_status env (memory s h) pi) =
              (memory s h)\<lparr>sub_ack_status := take n codes @ drop n (sub_ack_status (memory s h)),
                           num_of_subs_in_req := 0\<rparr> \<and>
            (st = MQTTSuccess \<longrightarrow>
               fst (mqtt_update_suback_status env (memory s h) pi) = CY_RSLT_SUCCESS))"
proof -
  have cb: "mqtt_event_callback cfg env param_mqtt_context (Some pi) (Some di) s =
              update_object h (\<lambda>obj. snd (mqtt_update_suback_status env obj pi)) s"
    using assms(1-5) by (auto simp add: mqtt_event_callback_def packet_type_defs)
  have ne: "n \<noteq> unat (num_of_subs_in_req (memory s h)) \<longrightarrow>
            mqtt_update_suback_status env (memory s h) pi =
              (CY_RSLT_MODULE_MQTT_ERROR, (memory s h)\<lparr>num_of_subs_in_req := 0\<rparr>)"
    using assms(6) by (simp add: mqtt_update_suback_status_def)
  have eq: "snd (mqtt_update_suback_status env (memory s h) pi) =
              (memory s h)\<lparr>sub_ack_status := take n codes @ drop n (sub_ack_status (memory s h)),
                           num_of_subs_in_req := 0\<rparr> \<and>
            (st = MQTTSuccess \<longrightarrow>
               fst (mqtt_update_suback_status env (memory s h) pi) = CY_RSLT_SUCCESS)"
    if *: "n = unat (num_of_subs_in_req (memory s h))"
  proof (cases "st = MQTTSuccess")
    case True
    with assms(7) have "n \<le> length codes" by simp
    moreover from * assms(9) have "n \<le> length (sub_ack_status (memory s h))" by simp
    ultimately have "foldl (\<lambda>st i. st[i := codes ! i]) (sub_ack_status (memory s h)) [0 ..< n] =
                     take n codes @ drop n (sub_ack_status (memory s h))"
      by (simp add: copy_codes)
    with True * assms(6) show ?thesis
      by (simp add: mqtt_update_suback_status_def)
  next
    case False
    with assms(8) have "n = 0" by simp
    with False * assms(6) show ?thesis
      by (simp add: mqtt_update_suback_status_def)
  qed
  from cb ne eq show ?thesis by blast
qed

theorem suback_dispatch_witness:
  "sub_ack_status (memory
      (mqtt_event_callback small_config suback_env (MQTT_CONTEXT_OF 1) (Some suback_packet)
         (Some (ack_info 5 MQTTSuccess)) (library_with (subscribing_client 2))) 1) = [1, 0x80] \<and>
   num_of_subs_in_req (memory
      (mqtt_event_callback small_config suback_env (MQTT_CONTEXT_OF 1) (Some suback_packet)
         (Some (ack_info 5 MQTTSuccess)) (library_with (subscribing_client 2))) 1) = 0 \<and>
   mqtt_update_suback_status suback_env (subscribing_client 2) suback_packet =
     (CY_RSLT_SUCCESS, (subscribing_client 2)\<lparr>sub_ack_status := [1, 0x80], num_of_subs_in_req := 0\<rparr>) \<and>
   mqtt_update_suback_status suback_env (subscribing_client 1) suback_packet =
     (CY_RSLT_MODULE_MQTT_ERROR, (subscribing_client 1)\<lparr>num_of_subs_in_req := 0\<rparr>)"
proof -
  have a: "MQTT_CONTEXT_OF 1 \<noteq> NULL_CONTEXT" by simp
  have b: "mqtt_find_handle (take (CY_MQTT_MAX_HANDLE small_config)
             (mqtt_handle_database (library_with (subscribing_client k)))) (MQTT_CONTEXT_OF 1) = 1" for k
    by (simp add: input_defs)
  have c: "(1::nat) \<noteq> NULL" by simp
  have d: "packet_type suback_packet = MQTT_PACKET_TYPE_SUBACK"
    by (simp add: suback_packet_def)
  have e: "packetIdentifier (ack_info 5 MQTTSuccess) =
           sent_packet_id (memory (library_with (subscribing_client k)) 1)" for k
    by (simp add: ack_info_def input_defs subscribing_client_def)
  have f: "suback_status_codes suback_env suback_packet = (MQTTSuccess, [1, 0x80], 2)"
    by (simp add: suback_env_def)
  have g: "MQTTSuccess = MQTTSuccess \<longrightarrow> length [1, 0x80 :: uint8_t] = 2" by simp
  have i: "MQTTSuccess \<noteq> MQTTSuccess \<longrightarrow> (2::nat) = 0" by simp
  have j: "unat (num_of_subs_in_req (memory (library_with (subscribing_client 2)) 1)) \<le>
           length (sub_ack_status (memory (library_with (subscribing_client 2)) 1))"
    by (simp add: input_defs subscribing_client_def)
  have k: "unat (num_of_subs_in_req (memory (library_with (subscribing_client 1)) 1)) \<le>
           length (sub_ack_status (memory (library_with (subscribing_client 1)) 1))"
    by (simp add: input_defs subscribing_client_def)
  have m: "memory (library_with obj) (Suc 0) = obj" for obj
    by (simp add: library_with_def)
  have n2: "unat (num_of_subs_in_req (subscribing_client 2)) = 2"
    and n1: "unat (num_of_subs_in_req (subscribing_client 1)) = 1"
    and st: "sub_ack_status (subscribing_client 2) = [0x80, 0x80]"
    by (simp_all add: subscribing_client_def)
  show ?thesis
    using suback_dispatch [OF a b c d e f g i j]
      suback_dispatch [OF a b c d e f g i k]
    by (simp add: m n1 n2 st update_object_def prod_eq_iff)
qed

subsection \<open>The session flag and the connection flag\<close>

lemma only_drops_refl: "only_drops_sessions s s"
  by (simp add: only_drops_sessions_def)

lemma only_drops_trans:
  "only_drops_sessions s s1 \<Longrightarrow> only_drops_sessions s1 s2 \<Longrightarrow> only_drops_sessions s s2"
  by (simp add: only_drops_sessions_def)

lemma only_drops_same_memory: "memory s' = memory s \<Longrightarrow> only_drops_sessions s s'"
  by (simp add: only_drops_sessions_def)

lemma only_drops_keeps_invariant:
  "only_drops_sessions s s' \<Longrightarrow> \<forall>a. session_implies_conn (memory s a) \<Longrightarrow>
   \<forall>a. session_implies_conn (memory s' a)"
  by (auto simp add: only_drops_sessions_def session_implies_conn_def)

lemma memory_record_call: "memory (record_call c s) = memory s"
  by (simp add: record_call_def)

lemma memory_simple_calls:
  "memory (snd (rtos_call env c s)) = memory s"
  "memory (snd (awsport_call env c s)) = memory s"
  "memory (snd (codec_call env c s)) = memory s"
  by (simp_all add: rtos_call_def awsport_call_def codec_call_def record_call_def)

lemma memory_app_callback: "memory (app_callback h ev s) = memory s"
  by (simp add: app_callback_def record_call_def)

lemma memory_update_object:
  "memory (update_object h f s) a = (if a = h then f (memory s h) else memory s a)"
  by (simp add: update_object_def)

lemma flags_set_mutex_state:
  "mqtt_conn_status (memory (set_mutex_state m v s) a) = mqtt_conn_status (memory s a)"
  "mqtt_session_established (memory (set_mutex_state m v s) a) = mqtt_session_established (memory s a)"
  "mqtt_obj_initialized (memory (set_mutex_state m v s) a) = mqtt_obj_initialized (memory s a)"
  "recv_thread (memory (set_mutex_state m v s) a) = recv_thread (memory s a)"
  by (cases m; simp add: set_mutex_state_def update_object_def)+

lemma flags_mutex_calls:
  "mqtt_conn_status (memory (snd (cy_rtos_get_mutex env m s)) a) = mqtt_conn_status (memory s a)"
  "mqtt_session_established (memory (snd (cy_rtos_get_mutex env m s)) a) = mqtt_session_established (memory s a)"
  "mqtt_conn_status (memory (snd (cy_rtos_set_mutex env m s)) a) = mqtt_conn_status (memory s a)"
  "mqtt_session_established (memory (snd (cy_rtos_set_mutex env m s)) a) = mqtt_session_established (memory s a)"
  by (simp_all add: cy_rtos_get_mutex_def cy_rtos_set_mutex_def Let_def flags_set_mutex_state memory_record_call)

lemma only_drops_mutex_calls:
  "only_drops_sessions s (snd (cy_rtos_get_mutex env m s))"
  "only_drops_sessions s (snd (cy_rtos_set_mutex env m s))"
  by (simp_all add: only_drops_sessions_def flags_mutex_calls)

lemma flags_update_suback_status:
  "mqtt_conn_status (snd (mqtt_update_suback_status env obj pi)) = mqtt_conn_status obj"
  "mqtt_session_established (snd (mqtt_update_suback_status env obj pi)) = mqtt_session_established obj"
  by (simp_all add: mqtt_update_suback_status_def Let_def case_prod_unfold)


lemma flags_puback_received:
  "mqtt_conn_status (mqtt_puback_received cfg di obj) = mqtt_conn_status obj"
  "mqtt_session_established (mqtt_puback_received cfg di obj) = mqtt_session_established obj"
  by (simp_all add: mqtt_puback_received_def mqtt_cleanup_outgoing_publish_with_packet_id_def
      mqtt_cleanup_outgoing_publish_def Let_def split: option.splits)

lemma only_drops_update_object:
  assumes "only_drops_sessions s s1"
    and "\<And>obj. mqtt_conn_status (f obj) = mqtt_conn_status obj"
    and "\<And>obj. mqtt_session_established (f obj) \<longrightarrow> mqtt_session_established obj"
  shows "only_drops_sessions s (update_object h f s1)"
  using assms by (simp add: only_drops_sessions_def memory_update_object)

lemma only_drops_app_callback:
  "only_drops_sessions s s1 \<Longrightarrow> only_drops_sessions s (app_callback h ev s1)"
  by (simp add: only_drops_sessions_def memory_app_callback)

lemma only_drops_record_call:
  "only_drops_sessions s s1 \<Longrightarrow> only_drops_sessions s (record_call c s1)"
  by (simp add: only_drops_sessions_def memory_record_call)

lemma only_drops_event_callback:
  "only_drops_sessions s (mqtt_event_callback cfg env ctx pi di s)"
  by (simp add: only_drops_sessions_def mqtt_event_callback_def Let_def memory_update_object
      memory_app_callback flags_update_suback_status flags_puback_received packet_type_defs
      split: option.splits)

lemma only_drops_dispatch:
  "only_drops_sessions s0 s \<Longrightarrow>
   only_drops_sessions s0
     (foldl (\<lambda>st (pi, di). mqtt_event_callback cfg env ctx pi di st) s ps)"
proof (induction ps arbitrary: s)
  case Nil
  then show ?case by simp
next
  case (Cons p ps)
  obtain pi di where p: "p = (pi, di)" by (cases p)
  have "only_drops_sessions s0 (mqtt_event_callback cfg env ctx pi di s)"
    using Cons.prems only_drops_event_callback by (rule only_drops_trans)
  from Cons.IH [OF this] p show ?case by simp
qed

lemma only_drops_process_loop:
  "only_drops_sessions s (snd (MQTT_ProcessLoop cfg env h s))"
  by (simp add: MQTT_ProcessLoop_def Let_def only_drops_dispatch only_drops_same_memory memory_record_call)

lemma only_drops_session_cleared:
  "only_drops_sessions s s1 \<Longrightarrow>
   only_drops_sessions s (update_object h (\<lambda>obj. obj\<lparr>mqtt_session_established := False\<rparr>) s1)"
  by (simp add: only_drops_sessions_def memory_update_object)

lemma only_drops_set_mutex:
  "only_drops_sessions s s1 \<Longrightarrow> only_drops_sessions s (snd (cy_rtos_set_mutex env m s1))"
  by (simp add: only_drops_sessions_def flags_mutex_calls)

lemma only_drops_get_mutex:
  "only_drops_sessions s s1 \<Longrightarrow> only_drops_sessions s (snd (cy_rtos_get_mutex env m s1))"
  by (simp add: only_drops_sessions_def flags_mutex_calls)

lemma only_drops_receive_thread:
  "only_drops_sessions s (snd (mqtt_receive_thread_iteration cfg env h s))"
proof -
  let ?s1 = "snd (cy_rtos_get_mutex env (PROCESS_MUTEX h) s)"
  have a: "only_drops_sessions s ?s1"
    by (rule only_drops_get_mutex [OF only_drops_refl])
  have b: "only_drops_sessions s (snd (MQTT_ProcessLoop cfg env h ?s1))"
    using a only_drops_process_loop by (rule only_drops_trans)
  show ?thesis
    unfolding mqtt_receive_thread_iteration_def Let_def case_prod_unfold
    by (simp add: a b only_drops_record_call only_drops_set_mutex only_drops_session_cleared
        only_drops_app_callback)
qed

lemma only_drops_disconn_event_thread:
  "only_drops_sessions s (mqtt_disconn_event_thread_iteration env s)"
proof -
  let ?s1 = "snd (rtos_call env Call_cy_rtos_get_queue s)"
  have a: "only_drops_sessions s ?s1"
    by (simp add: only_drops_same_memory memory_simple_calls)
  have b: "only_drops_sessions s (snd (cy_rtos_get_mutex env m ?s1))" for m
    by (rule only_drops_get_mutex [OF a])
  show ?thesis
    unfolding mqtt_disconn_event_thread_iteration_def Let_def case_prod_unfold
    by (simp add: a b only_drops_set_mutex only_drops_session_cleared only_drops_app_callback)
qed

lemma invariant_after_disconnect:
  assumes "\<forall>a. session_implies_conn (memory s a)"
  shows "\<forall>a. session_implies_conn (memory (snd (cy_mqtt_disconnect env h s)) a)"
  using assms
  by (simp add: cy_mqtt_disconnect_def Let_def case_prod_unfold session_implies_conn_def
      memory_update_object memory_simple_calls flags_mutex_calls)

lemma memory_backoff:
  "memory (snd (snd (RetryUtils_BackoffAndSleep cfg n s))) = memory s"
  by (simp add: RetryUtils_BackoffAndSleep_def memory_record_call)

lemma memory_network_connect_attempt:
  "memory (snd (snd (snd (network_connect_attempt cfg env h n r s)))) = memory s"
  by (simp add: network_connect_attempt_def Let_def case_prod_unfold memory_simple_calls memory_backoff)

lemma memory_network_connect_loop:
  "memory (snd (network_connect_loop cfg env h n r s)) = memory s"
proof (induction cfg env h n r s rule: network_connect_loop.induct)
  case (1 cfg env h attemptsDone retryUtilsStatus s)
  define x where "x = network_connect_attempt cfg env h attemptsDone retryUtilsStatus s"
  have m: "memory (snd (snd (snd x))) = memory s"
    by (simp add: x_def memory_network_connect_attempt)
  show ?case
  proof (cases "fst x \<noteq> CY_RSLT_SUCCESS \<and> fst (snd x) = RetryUtilsSuccess")
    case True
    from "1.IH" [OF x_def True] m True show ?thesis
      by (subst network_connect_loop.simps) (simp add: Let_def x_def [symmetric])
  next
    case False
    with m show ?thesis
      by (subst network_connect_loop.simps) (auto simp add: Let_def x_def [symmetric])
  qed
qed

lemma flags_establish_session:
  "mqtt_conn_status (memory (snd (mqtt_establish_session env h ci w c s)) a) =
     mqtt_conn_status (memory s a)"
  "a \<noteq> h \<Longrightarrow> mqtt_session_established (memory (snd (mqtt_establish_session env h ci w c s)) a) =
     mqtt_session_established (memory s a)"
  by (simp_all add: mqtt_establish_session_def Let_def case_prod_unfold memory_update_object
      memory_simple_calls flags_mutex_calls split: option.splits)

lemma flags_resend_scan:
  "mqtt_conn_status (memory (snd (snd (resend_scan cfg env h p i f s))) a) = mqtt_conn_status (memory s a) \<and>
   mqtt_session_established (memory (snd (snd (resend_scan cfg env h p i f s))) a) =
     mqtt_session_established (memory s a)"
proof (induction cfg env h p i f s rule: resend_scan.induct)
  case (1 cfg env h packetid_to_resend index found_packetid s)
  show ?case
    by (subst (1 2) resend_scan.simps)
       (simp add: Let_def "1.IH" MQTT_Publish_def memory_simple_calls memory_update_object
          update_slot_def)
qed

lemma flags_resend_loop:
  "mqtt_conn_status (memory (snd (resend_loop cfg env h ids r s)) a) = mqtt_conn_status (memory s a) \<and>
   mqtt_session_established (memory (snd (resend_loop cfg env h ids r s)) a) =
     mqtt_session_established (memory s a)"
proof (induction ids arbitrary: r s)
  case Nil
  then show ?case by simp
next
  case (Cons p ids)
  show ?case
    using flags_resend_scan [of cfg env h p 0 False s a]
    by (auto simp add: Cons.IH split: prod.splits)
qed

lemma flags_publish_resend:
  "mqtt_conn_status (memory (snd (mqtt_handle_publish_resend cfg env h s)) a) = mqtt_conn_status (memory s a)"
  "mqtt_session_established (memory (snd (mqtt_handle_publish_resend cfg env h s)) a) =
     mqtt_session_established (memory s a)"
  by (simp_all add: mqtt_handle_publish_resend_def flags_resend_loop)

lemma flags_connect_exit:
  "mqtt_conn_status (memory (snd (connect_exit env h r s)) a) = mqtt_conn_status (memory s a)"
  "mqtt_session_established (memory (snd (connect_exit env h r s)) a) =
     (a \<noteq> h \<and> mqtt_session_established (memory s a))"
  by (auto simp add: connect_exit_def Let_def memory_update_object memory_simple_calls)

lemma invariant_at_connect_exit:
  "session_implies_conn (memory (snd (connect_exit env h r s)) h)"
  by (simp add: session_implies_conn_def flags_connect_exit)

lemma connect_established_at_client:
  "session_implies_conn (memory (snd (connect_established cfg env h c r s)) h)"
  unfolding connect_established_def Let_def case_prod_unfold
  by (simp add: invariant_at_connect_exit)
     (simp add: session_implies_conn_def memory_update_object)

lemma connect_established_elsewhere:
  assumes "a \<noteq> h"
  shows "mqtt_conn_status (memory (snd (connect_established cfg env h c r s)) a) =
           mqtt_conn_status (memory s a) \<and>
         mqtt_session_established (memory (snd (connect_established cfg env h c r s)) a) =
           mqtt_session_established (memory s a)"
  unfolding connect_established_def Let_def case_prod_unfold
  using assms
  by (simp add: flags_connect_exit flags_publish_resend memory_update_object memory_simple_calls)

lemma invariant_after_connect:
  assumes "\<forall>a. session_implies_conn (memory s a)"
  shows "\<forall>a. session_implies_conn (memory (snd (cy_mqtt_connect cfg env h ci s)) a)"
proof
  fix a
  from assms have inv: "mqtt_session_established (memory s a) \<longrightarrow> mqtt_conn_status (memory s a)"
    by (simp add: session_implies_conn_def)
  show "session_implies_conn (memory (snd (cy_mqtt_connect cfg env h ci s)) a)"
  proof (cases "a = h")
    case True
    from assms have "session_implies_conn (memory s h)" by simp
    with True show ?thesis
      unfolding cy_mqtt_connect_def Let_def case_prod_unfold
      by (auto simp add: connect_established_at_client invariant_at_connect_exit
          memory_network_connect_loop memory_record_call)
  next
    case False
    with inv show ?thesis
      unfolding cy_mqtt_connect_def Let_def case_prod_unfold
      by (simp add: session_implies_conn_def connect_established_elsewhere flags_connect_exit
          flags_establish_session memory_network_connect_loop memory_record_call)
  qed
qed

text \<open>
  C3 (as amended). Where \<^verbatim>\<open>mqtt_session_established\<close> implies \<^verbatim>\<open>mqtt_conn_status\<close> for
  every client object when \<^verbatim>\<open>cy_mqtt_connect\<close>, \<^verbatim>\<open>cy_mqtt_disconnect\<close>, a pass of the
  receive thread or a pass of the disconnect-event thread starts, it does so for every
  client object when that operation has returned, on each of its exit paths and whatever
  the outside answers.
\<close>

theorem session_implies_conn_at_exits:
  assumes "\<forall>a. session_implies_conn (memory s a)"
  shows "(\<forall>a. session_implies_conn (memory (snd (cy_mqtt_connect cfg env h connect_info s)) a)) \<and>
         (\<forall>a. session_implies_conn (memory (snd (cy_mqtt_disconnect env h s)) a)) \<and>
         (\<forall>a. session_implies_conn (memory (snd (mqtt_receive_thread_iteration cfg env h s)) a)) \<and>
         (\<forall>a. session_implies_conn (memory (mqtt_disconn_event_thread_iteration env s) a))"
  using assms invariant_after_connect invariant_after_disconnect
    only_drops_keeps_invariant [OF only_drops_receive_thread]
    only_drops_keeps_invariant [OF only_drops_disconn_event_thread]
  by blast

theorem session_implies_conn_witness:
  "(\<forall>a. session_implies_conn (memory (library_with connected_client) a)) \<and>
   (\<forall>a. session_implies_conn (memory (snd (cy_mqtt_connect small_config quiet_env 1
           plain_connect_info (library_with connected_client))) a)) \<and>
   (\<forall>a. session_implies_conn (memory (snd (cy_mqtt_disconnect quiet_env 1
           (library_with connected_client))) a)) \<and>
   (\<forall>a. session_implies_conn (memory (snd (mqtt_receive_thread_iteration small_config quiet_env 1
           (library_with connected_client))) a)) \<and>
   (\<forall>a. session_implies_conn (memory (mqtt_disconn_event_thread_iteration quiet_env
           (library_with connected_client)) a))"
proof -
  have h: "\<forall>a. session_implies_conn (memory (library_with connected_client) a)"
    by (simp add: session_implies_conn_def input_defs)
  show ?thesis
    using h session_implies_conn_at_exits [OF h, of small_config quiet_env 1 plain_connect_info]
    by simp
qed

text \<open>The claim as stated fails between the handshake and the return of
  \<^verbatim>\<open>cy_mqtt_connect\<close>: when \<^verbatim>\<open>mqtt_establish_session\<close> has returned success, the mutex
  of the client is free again, \<^verbatim>\<open>mqtt_session_established\<close> is true and
  \<^verbatim>\<open>mqtt_conn_status\<close> is still false; the rest of \<^verbatim>\<open>cy_mqtt_connect\<close> runs from that
  state.\<close>

theorem session_without_conn_counterexample:
  "cy_mqtt_connect small_config quiet_env 1 plain_connect_info (library_with idle_client) =
     connect_established small_config quiet_env 1 False CY_RSLT_SUCCESS
       (snd (mqtt_establish_session quiet_env 1 plain_connect_details None False network_up)) \<and>
   fst (mqtt_establish_session quiet_env 1 plain_connect_details None False network_up) =
     CY_RSLT_SUCCESS \<and>
   mqtt_session_established
     (memory (snd (mqtt_establish_session quiet_env 1 plain_connect_details None False network_up)) 1) \<and>
   \<not> mqtt_conn_status
     (memory (snd (mqtt_establish_session quiet_env 1 plain_connect_details None False network_up)) 1) \<and>
   process_mutex
     (memory (snd (mqtt_establish_session quiet_env 1 plain_connect_details None False network_up)) 1) =
     MUTEX_UNLOCKED \<and>
   \<not> session_implies_conn
     (memory (snd (mqtt_establish_session quiet_env 1 plain_connect_details None False network_up)) 1)"
proof -
  have up: "network_connect_loop small_config quiet_env 1 0 RetryUtilsSuccess
              (record_call Call_RetryUtils_ParamsReset (library_with idle_client)) =
            (CY_RSLT_SUCCESS, network_up)"
    by (simp add: network_connect_loop.simps network_connect_attempt_def network_up_def
        input_defs model_defs)
  have est: "mqtt_establish_session quiet_env 1 plain_connect_details None False network_up =
     (CY_RSLT_SUCCESS,
      (library_with (idle_client\<lparr>mqtt_session_established := True\<rparr>))
        \<lparr>calls := calls network_up @
           [Call_cy_rtos_get_mutex (PROCESS_MUTEX 1),
            Call_MQTT_Connect 1 plain_connect_details None,
            Call_cy_rtos_set_mutex (PROCESS_MUTEX 1)]\<rparr>)"
    by (simp add: mqtt_establish_session_def network_up_def input_defs model_defs)
  have init: "mqtt_obj_initialized (memory (library_with idle_client) 1)"
    by (simp add: input_defs)
  have con: "cy_mqtt_connect small_config quiet_env 1 plain_connect_info (library_with idle_client) =
     connect_established small_config quiet_env 1 False CY_RSLT_SUCCESS
       (snd (mqtt_establish_session quiet_env 1 plain_connect_details None False network_up))"
    using init up est
    by (simp add: cy_mqtt_connect_def Let_def plain_connect_info_def plain_connect_details_def)
  show ?thesis
    using con est by (simp add: session_implies_conn_def input_defs)
qed

end
